theory Spec2Isabelle
  imports Complex_Main "HOL-Library.Sublist" "HOL-Library.Log_Nat" "HOL-Library.Multiset"
begin

section \<open>Strings\<close>

text \<open>
  JavaScript strings are modelled as HOL strings. The model is exact on ASCII text: the
  white space class of \<open>trim\<close> and of the regular expression class \<open>\s\<close> is restricted to its
  ASCII members, and case conversion touches the letters \<open>a\<close> to \<open>z\<close> and \<open>A\<close> to \<open>Z\<close> only.
\<close>

definition isSpace :: "char \<Rightarrow> bool" where
  "isSpace c = (c \<in> set [CHR 0x09, CHR 0x0A, CHR 0x0B, CHR 0x0C, CHR 0x0D, CHR '' ''])"

definition isDigit :: "char \<Rightarrow> bool" where
  "isDigit c = (c \<in> set ''0123456789'')"

definition isUpper :: "char \<Rightarrow> bool" where
  "isUpper c = (c \<in> set ''ABCDEFGHIJKLMNOPQRSTUVWXYZ'')"

definition toUpperChar :: "char \<Rightarrow> char" where
  "toUpperChar c =
     (case map_of (zip ''abcdefghijklmnopqrstuvwxyz'' ''ABCDEFGHIJKLMNOPQRSTUVWXYZ'') c of
        Some u \<Rightarrow> u | None \<Rightarrow> c)"

definition toLowerChar :: "char \<Rightarrow> char" where
  "toLowerChar c =
     (case map_of (zip ''ABCDEFGHIJKLMNOPQRSTUVWXYZ'' ''abcdefghijklmnopqrstuvwxyz'') c of
        Some l \<Rightarrow> l | None \<Rightarrow> c)"

definition toUpperCase :: "string \<Rightarrow> string" where
  "toUpperCase s = map toUpperChar s"

definition toLowerCase :: "string \<Rightarrow> string" where
  "toLowerCase s = map toLowerChar s"

text \<open>\<open>s.trim()\<close>\<close>

definition trim :: "string \<Rightarrow> string" where
  "trim s = rev (dropWhile isSpace (rev (dropWhile isSpace s)))"

text \<open>\<open>s.replace(/\s/g, "")\<close>\<close>

definition removeSpaces :: "string \<Rightarrow> string" where
  "removeSpaces s = filter (\<lambda>c. \<not> isSpace c) s"

text \<open>\<open>s.replace(/[^A-Z]/g, "")\<close>\<close>

definition keepUpper :: "string \<Rightarrow> string" where
  "keepUpper s = filter isUpper s"

text \<open>\<open>s.replace(/\s\s+/g, " ")\<close>: every maximal run of two or more white space characters
  becomes one space; a single white space character is left as it is.\<close>

function collapseSpaces :: "string \<Rightarrow> string" where
  "collapseSpaces [] = []"
| "collapseSpaces [c] = [c]"
| "collapseSpaces (c # d # s) =
     (if isSpace c \<and> isSpace d then CHR '' '' # collapseSpaces (dropWhile isSpace s)
      else c # collapseSpaces (d # s))"
  by pat_completeness auto
termination
  by (relation "measure length") (auto simp: less_Suc_eq_le le_SucI length_dropWhile_le)

text \<open>\<open>s.split(sep)\<close> for a one-character separator: never the empty array.\<close>

fun split :: "char \<Rightarrow> string \<Rightarrow> string list" where
  "split sep [] = [[]]"
| "split sep (c # s) =
     (if c = sep then [] # split sep s
      else (case split sep s of [] \<Rightarrow> [[c]] | t # ts \<Rightarrow> (c # t) # ts))"

text \<open>\<open>xs.join(sep)\<close>\<close>

fun join :: "string \<Rightarrow> string list \<Rightarrow> string" where
  "join sep [] = []"
| "join sep [t] = t"
| "join sep (t # u # ts) = t @ sep @ join sep (u # ts)"

text \<open>\<open>s.replace(/pat/g, rep)\<close> for a pattern without metacharacters: the occurrences are
  replaced from left to right, without overlap.\<close>

fun replaceAll :: "string \<Rightarrow> string \<Rightarrow> string \<Rightarrow> string" where
  "replaceAll pat rep [] = []"
| "replaceAll pat rep (c # s) =
     (if pat \<noteq> [] \<and> prefix pat (c # s)
      then rep @ replaceAll pat rep (drop (length pat) (c # s))
      else c # replaceAll pat rep s)"

text \<open>\<open>s.lastIndexOf(c)\<close>: the index of the last occurrence, \<open>-1\<close> when there is none.\<close>

fun lastIndexOf :: "char \<Rightarrow> string \<Rightarrow> int" where
  "lastIndexOf c [] = -1"
| "lastIndexOf c (d # s) =
     (let i = lastIndexOf c s in
      if i \<ge> 0 then i + 1 else if d = c then 0 else -1)"

text \<open>\<open>s.substring(i, j)\<close> and \<open>s.substring(i)\<close> for indices within the string.\<close>

definition substring :: "string \<Rightarrow> nat \<Rightarrow> nat \<Rightarrow> string" where
  "substring s i j = take (j - i) (drop i s)"

definition substringFrom :: "string \<Rightarrow> nat \<Rightarrow> string" where
  "substringFrom s i = drop i s"

section \<open>Geometry\<close>

text \<open>
  Coordinates are JavaScript numbers, that is IEEE doubles. A finite double is a rational
  with at most 53 significant bits, and every operation of the program is the exact
  operation followed by rounding to the nearest double, ties to even. The model has the
  finite doubles with an unbounded exponent: overflow to an infinity, gradual underflow
  and \<open>NaN\<close> are outside it. Comparison, negation, the absolute value, \<open>Math.min\<close> and
  \<open>Math.max\<close> are exact.
\<close>

text \<open>The binary exponent of a positive rational: \<open>2 powi binade a \<le> a < 2 powi (binade a + 1)\<close>.\<close>

definition binade :: "rat \<Rightarrow> int" where
  "binade a =
     (case quotient_of a of
        (p, q) \<Rightarrow>
          (if 2 powi (bitlen p - bitlen q) \<le> a then bitlen p - bitlen q
           else bitlen p - bitlen q - 1))"

text \<open>The nearest integer, the even one of two that are equally near.\<close>

definition roundHalfEven :: "rat \<Rightarrow> int" where
  "roundHalfEven a =
     (if a - of_int \<lfloor>a\<rfloor> < 1 / 2 then \<lfloor>a\<rfloor>
      else if 1 / 2 < a - of_int \<lfloor>a\<rfloor> then \<lfloor>a\<rfloor> + 1
      else if even \<lfloor>a\<rfloor> then \<lfloor>a\<rfloor> else \<lfloor>a\<rfloor> + 1)"

text \<open>The nearest double: the nearest multiple of \<open>2 powi (binade \<bar>a\<bar> - 52)\<close>.\<close>

definition double :: "rat \<Rightarrow> rat" where
  "double a =
     (if a = 0 then 0
      else sgn a * of_int (roundHalfEven (\<bar>a\<bar> / 2 powi (binade \<bar>a\<bar> - 52))) *
           2 powi (binade \<bar>a\<bar> - 52))"

definition isDouble :: "rat \<Rightarrow> bool" where
  "isDouble a = (double a = a)"

text \<open>The operators \<open>+\<close>, \<open>-\<close>, \<open>*\<close> and \<open>/\<close> of the program.\<close>

definition addD :: "rat \<Rightarrow> rat \<Rightarrow> rat" where
  "addD a b = double (a + b)"

definition subD :: "rat \<Rightarrow> rat \<Rightarrow> rat" where
  "subD a b = double (a - b)"

definition mulD :: "rat \<Rightarrow> rat \<Rightarrow> rat" where
  "mulD a b = double (a * b)"

definition divD :: "rat \<Rightarrow> rat \<Rightarrow> rat" where
  "divD a b = double (a / b)"

record Rectangle =
  x :: rat
  y :: rat
  width :: rat
  height :: rat

record Element = Rectangle +
  "text" :: string

record Cell = Rectangle +
  elements :: "Element list"

definition intersect :: "'a Rectangle_scheme \<Rightarrow> 'b Rectangle_scheme \<Rightarrow> Rectangle" where
  "intersect rectangle1 rectangle2 =
     (let x1 = max (x rectangle1) (x rectangle2);
          y1 = max (y rectangle1) (y rectangle2);
          x2 = min (addD (x rectangle1) (width rectangle1)) (addD (x rectangle2) (width rectangle2));
          y2 = min (addD (y rectangle1) (height rectangle1)) (addD (y rectangle2) (height rectangle2))
      in if x2 \<ge> x1 \<and> y2 \<ge> y1
         then \<lparr>x = x1, y = y1, width = subD x2 x1, height = subD y2 y1\<rparr>
         else \<lparr>x = 0, y = 0, width = 0, height = 0\<rparr>)"

definition getArea :: "'a Rectangle_scheme \<Rightarrow> rat" where
  "getArea rectangle = mulD (width rectangle) (height rectangle)"

definition getPercentageOfElementInCell :: "'a Rectangle_scheme \<Rightarrow> 'b Rectangle_scheme \<Rightarrow> rat" where
  "getPercentageOfElementInCell element cell =
     (let elementArea = getArea element;
          intersectionArea = getArea (intersect cell element)
      in if elementArea = 0 then 0 else divD (mulD intersectionArea 100) elementArea)"

text \<open>An argument that is \<open>undefined\<close> in the program is \<open>None\<close> here.\<close>

definition getHorizontalOverlapPercentage ::
  "'a Rectangle_scheme option \<Rightarrow> 'b Rectangle_scheme option \<Rightarrow> rat" where
  "getHorizontalOverlapPercentage r1 r2 =
     (case (r1, r2) of
        (Some rectangle1, Some rectangle2) \<Rightarrow>
          (let startX1 = x rectangle1;
               endX1 = addD (x rectangle1) (width rectangle1);
               startX2 = x rectangle2;
               endX2 = addD (x rectangle2) (width rectangle2)
           in if startX1 \<ge> endX2 \<or> endX1 \<le> startX2 \<or> width rectangle1 = 0 \<or> width rectangle2 = 0
              then 0
              else (let intersectionWidth = subD (min endX1 endX2) (max startX1 startX2);
                        unionWidth = subD (max endX1 endX2) (min startX1 startX2)
                    in divD (mulD intersectionWidth 100) unionWidth))
      | _ \<Rightarrow> 0)"

section \<open>Address information\<close>

text \<open>
  The three dictionaries are JavaScript objects: association lists from keys to values,
  with distinct keys in insertion order. \<open>Object.keys\<close> is the list of keys and a lookup
  of a missing key is \<open>undefined\<close>, that is \<open>None\<close>.

  The libraries of the program are parameters of the model: \<open>didYouMean input candidates
  threshold\<close> is the first closest match of \<open>didyoumean2\<close> under an edit distance threshold
  (case insensitive, spaces trimmed), \<open>None\<close> for \<open>null\<close>; \<open>momentStrict s format\<close> is the
  strict parse of \<open>s\<close> by \<open>moment\<close>, returned in the format \<open>YYYY-MM-DD\<close> when it is valid;
  \<open>today\<close> is the current date in that format.
\<close>

record Environment =
  StreetNames :: "(string \<times> string list) list"
  StreetSuffixes :: "(string \<times> string) list"
  SuburbNames :: "(string \<times> string) list"
  didYouMean :: "string \<Rightarrow> string list \<Rightarrow> nat \<Rightarrow> string option"
  momentStrict :: "string \<Rightarrow> string \<Rightarrow> string option"
  today :: string

definition objectKeys :: "('k \<times> 'v) list \<Rightarrow> 'k list" where
  "objectKeys obj = map fst obj"

text \<open>\<open>tokens.slice(-index)\<close>: the last \<open>index\<close> tokens, all of them when there are fewer.\<close>

definition sliceLast :: "nat \<Rightarrow> 'a list \<Rightarrow> 'a list" where
  "sliceLast index tokens = drop (length tokens - index) tokens"

text \<open>What \<open>tokens.splice(-index, index)\<close> leaves in \<open>tokens\<close>.\<close>

definition spliceLast :: "nat \<Rightarrow> 'a list \<Rightarrow> 'a list" where
  "spliceLast index tokens = take (length tokens - index) tokens"

text \<open>The tokens of \<open>formatStreetName\<close> after the street suffix has been expanded.\<close>

definition streetTokens :: "Environment \<Rightarrow> string \<Rightarrow> string list" where
  "streetTokens env txt =
     (let tokens = split CHR '' '' (toUpperCase (trim txt));
          token = last tokens;
          streetSuffix = map_of (StreetSuffixes env) token
      in butlast tokens @ [case streetSuffix of None \<Rightarrow> token | Some expansion \<Rightarrow> expansion])"

text \<open>The first loop of \<open>formatStreetName\<close>, over the indices that are left.\<close>

fun exactLoop :: "Environment \<Rightarrow> string list \<Rightarrow> nat list \<Rightarrow> string option" where
  "exactLoop env tokens [] = None"
| "exactLoop env tokens (index # indices) =
     (if map_of (StreetNames env) (join '' '' (sliceLast index tokens)) \<noteq> None
      then Some (join '' '' tokens)
      else exactLoop env tokens indices)"

text \<open>The second loop of \<open>formatStreetName\<close>.\<close>

fun fuzzyLoop :: "Environment \<Rightarrow> string list \<Rightarrow> nat list \<Rightarrow> string option" where
  "fuzzyLoop env tokens [] = None"
| "fuzzyLoop env tokens (index # indices) =
     (let threshold = 7 - index in
      case didYouMean env (join '' '' (sliceLast index tokens)) (objectKeys (StreetNames env))
             threshold of
        Some streetNameMatch \<Rightarrow>
          Some (trim (join '' '' (spliceLast index tokens) @ '' '' @ streetNameMatch))
      | None \<Rightarrow> fuzzyLoop env tokens indices)"

definition windowSizes :: "nat list" where
  "windowSizes = [6, 5, 4, 3, 2]"

definition formatStreetName :: "Environment \<Rightarrow> string \<Rightarrow> string" where
  "formatStreetName env txt =
     (let tokens = streetTokens env txt in
      case exactLoop env tokens windowSizes of
        Some street \<Rightarrow> street
      | None \<Rightarrow>
          (case fuzzyLoop env tokens windowSizes of
             Some street \<Rightarrow> street
           | None \<Rightarrow> txt))"

text \<open>The four replacements at the start of \<open>formatAddress\<close>.\<close>

definition expandTerraces :: "string \<Rightarrow> string" where
  "expandTerraces s =
     replaceAll '' TCE WEST'' '' TERRACE WEST''
       (replaceAll '' TCE EAST'' '' TERRACE EAST''
         (replaceAll '' TCE STH'' '' TERRACE SOUTH''
           (replaceAll '' TCE NTH'' '' TERRACE NORTH'' s)))"

definition formatAddress :: "Environment \<Rightarrow> string \<Rightarrow> string" where
  "formatAddress env address0 =
     (let address = expandTerraces (trim address0);
          commaIndex = lastIndexOf CHR '','' address
      in if commaIndex < 0 then address
         else
           (let streetName = substring address 0 (nat commaIndex);
                suburbName = substringFrom address (nat commaIndex + 1)
            in case didYouMean env suburbName (objectKeys (SuburbNames env)) 2 of
                 None \<Rightarrow> address
               | Some suburb \<Rightarrow>
                   formatStreetName env streetName @ '', '' @
                     (case map_of (SuburbNames env) suburb of
                        Some postCode \<Rightarrow> postCode | None \<Rightarrow> ''undefined'')))"

section \<open>Development applications and the log\<close>

record DevelopmentApplication =
  applicationNumber :: string
  address :: string
  description :: string
  informationUrl :: string
  commentUrl :: string
  scrapeDate :: string
  receivedDate :: string
  legalDescription :: string

definition CommentUrl :: string where
  "CommentUrl = ''mailto:mail@dclep.sa.gov.au''"

text \<open>
  One constructor for each \<open>console.log\<close> template of \<open>parsePdf\<close>, with the values that the
  template interpolates.
\<close>

datatype LogMessage =
    ReadingPdf string
  | ReadingPage nat nat
  | NoRowsFound string
  | HeadingNotFound string string
  | FoundApplication string
  | IgnoringNoStreetNameCell
  | IgnoringNoSuburbNameCell
  | IgnoringNoStreetName
  | IgnoringNoSuburbName
  | IgnoringBlankAddress
  | IgnoringBlankNumber "string option"
  | IgnoringBlankAddressOf string "string option"

text \<open>\<open>elements.map(element => `[${element.text}]`).join("")\<close>\<close>

definition elementSummary :: "Element list \<Rightarrow> string" where
  "elementSummary es = concat (map (\<lambda>element. ''['' @ text element @ '']'') es)"

text \<open>\<open>elements.map(element => element.text).join(" ").replace(/\s\s+/g, " ").trim()\<close>\<close>

definition joinedText :: "Element list \<Rightarrow> string" where
  "joinedText es = trim (collapseSpaces (join '' '' (map text es)))"

section \<open>Sorting\<close>

text \<open>
  \<open>Array.prototype.sort\<close> with a comparer is modelled as the insertion sort that takes the
  elements from left to right and moves each one to the left past the elements that the
  comparer puts after it. A comparer that is a consistent ordering of the elements has one
  sorted order, up to the elements that it does not tell apart; where the comparer is not
  consistent the program leaves the order to the JavaScript engine.
\<close>

text \<open>The sorted elements are kept in reverse, the last one first.\<close>

fun insertBy :: "('a \<Rightarrow> 'a \<Rightarrow> int) \<Rightarrow> 'a \<Rightarrow> 'a list \<Rightarrow> 'a list" where
  "insertBy comparer element [] = [element]"
| "insertBy comparer element (tmp # rest) =
     (if comparer tmp element > 0 then tmp # insertBy comparer element rest
      else element # tmp # rest)"

definition jsSort :: "('a \<Rightarrow> 'a \<Rightarrow> int) \<Rightarrow> 'a list \<Rightarrow> 'a list" where
  "jsSort comparer as = rev (foldl (\<lambda>done element. insertBy comparer element done) [] as)"

text \<open>A comparer is consistent on the elements of a list when "not after" is a total
  preorder of them.\<close>

definition consistentComparer :: "('a \<Rightarrow> 'a \<Rightarrow> int) \<Rightarrow> 'a list \<Rightarrow> bool" where
  "consistentComparer comparer as =
     ((\<forall>a \<in> set as. \<forall>b \<in> set as. comparer a b \<le> 0 \<or> comparer b a \<le> 0) \<and>
      (\<forall>a \<in> set as. \<forall>b \<in> set as. \<forall>c \<in> set as.
         comparer a b \<le> 0 \<and> comparer b c \<le> 0 \<longrightarrow> comparer a c \<le> 0))"

definition invertY :: "'a Rectangle_scheme \<Rightarrow> 'a Rectangle_scheme" where
  "invertY r = r\<lparr>y := - (addD (y r) (height r))\<rparr>"

definition cellComparer :: "'a Rectangle_scheme \<Rightarrow> 'a Rectangle_scheme \<Rightarrow> int" where
  "cellComparer a b =
     (if \<bar>subD (y a) (y b)\<bar> < 2 then (if x a > x b then 1 else if x a < x b then -1 else 0)
      else (if y a > y b then 1 else -1))"

definition elementComparer :: "'a Rectangle_scheme \<Rightarrow> 'a Rectangle_scheme \<Rightarrow> int" where
  "elementComparer a b =
     (if \<bar>subD (y a) (y b)\<bar> < 1 then (if x a > x b then 1 else if x a < x b then -1 else 0)
      else (if y a > y b then 1 else -1))"

definition yComparer :: "'a Rectangle_scheme \<Rightarrow> 'a Rectangle_scheme \<Rightarrow> int" where
  "yComparer a b = (if y a > y b then 1 else if y a < y b then -1 else 0)"

definition rowCellComparer :: "'a Rectangle_scheme \<Rightarrow> 'a Rectangle_scheme \<Rightarrow> int" where
  "rowCellComparer a b = (if x a > x b then 1 else if x a < x b then -1 else 0)"

text \<open>A row is never empty; \<open>a[0]\<close> of an empty row would be a \<open>TypeError\<close>.\<close>

definition rowComparer :: "Cell list \<Rightarrow> Cell list \<Rightarrow> int" where
  "rowComparer a b =
     (case (a, b) of
        (a0 # _, b0 # _) \<Rightarrow> (if y a0 > y b0 then 1 else if y a0 < y b0 then -1 else 0)
      | _ \<Rightarrow> 0)"

section \<open>Grid mode\<close>

text \<open>
  The page of the grid strategy is the pair of the results of \<open>parseCells\<close> and
  \<open>parseElements\<close>.
\<close>

text \<open>\<open>cells.find(cell => getPercentageOfElementInCell(element, cell) > 50)\<close>\<close>

definition ownerCell :: "Element \<Rightarrow> Cell list \<Rightarrow> Cell option" where
  "ownerCell element cells =
     List.find (\<lambda>cell. getPercentageOfElementInCell element cell > 50) cells"

text \<open>The cells after \<open>ownerCell.elements.push(element)\<close>, when there is an owner.\<close>

fun pushToOwner :: "Element \<Rightarrow> Cell list \<Rightarrow> Cell list" where
  "pushToOwner element [] = []"
| "pushToOwner element (cell # cells) =
     (if getPercentageOfElementInCell element cell > 50
      then cell\<lparr>elements := elements cell @ [element]\<rparr> # cells
      else cell # pushToOwner element cells)"

definition allocateElements :: "Element list \<Rightarrow> Cell list \<Rightarrow> Cell list" where
  "allocateElements es cells = foldl (\<lambda>cs element. pushToOwner element cs) cells es"

fun addToRows :: "Cell \<Rightarrow> Cell list list \<Rightarrow> Cell list list" where
  "addToRows cell [] = [[cell]]"
| "addToRows cell (row # rows) =
     (case row of
        row0 # _ \<Rightarrow>
          (if \<bar>subD (y row0) (y cell)\<bar> < 2 then (row @ [cell]) # rows
           else row # addToRows cell rows)
      | [] \<Rightarrow> row # addToRows cell rows)"

definition groupRows :: "Cell list \<Rightarrow> Cell list list" where
  "groupRows cells = foldl (\<lambda>rows cell. addToRows cell rows) [] cells"

text \<open>\<open>cells.find(cell => cell.elements.some(element =>
  element.text.toLowerCase().replace(/\s/g, "") === heading))\<close>\<close>

definition findHeadingCell :: "string \<Rightarrow> Cell list \<Rightarrow> Cell option" where
  "findHeadingCell heading cells =
     List.find (\<lambda>cell. list_ex (\<lambda>element. removeSpaces (toLowerCase (text element)) = heading)
                         (elements cell)) cells"

record GridHeadings =
  applicationNumberHeadingCell :: "Cell option"
  receivedDateHeadingCell :: "Cell option"
  legalDescriptionHeadingCell :: "Cell option"
  streetNameHeadingCell :: "Cell option"
  suburbNameHeadingCell :: "Cell option"
  descriptionHeadingCell :: "Cell option"

definition findGridHeadings :: "Cell list \<Rightarrow> GridHeadings" where
  "findGridHeadings cells =
     \<lparr>applicationNumberHeadingCell = findHeadingCell ''d/anumber'' cells,
      receivedDateHeadingCell = findHeadingCell ''received'' cells,
      legalDescriptionHeadingCell =
        (case findHeadingCell ''allotmentor'' cells of
           None \<Rightarrow> findHeadingCell ''allotment/'' cells
         | Some cell \<Rightarrow> Some cell),
      streetNameHeadingCell = findHeadingCell ''streetname'' cells,
      suburbNameHeadingCell = findHeadingCell ''town'' cells,
      descriptionHeadingCell = findHeadingCell ''proposal'' cells\<rparr>"

text \<open>\<open>row.find(cell => getHorizontalOverlapPercentage(cell, headingCell) > 90)\<close>\<close>

definition findRowCell :: "Cell option \<Rightarrow> Cell list \<Rightarrow> Cell option" where
  "findRowCell headingCell row =
     List.find (\<lambda>cell. getHorizontalOverlapPercentage (Some cell) headingCell > 90) row"

text \<open>Does a match of \<open>[0-9]+\/[0-9]+\/[0-9]+\<close> start at the head of the string?\<close>

definition matchesHere :: "string \<Rightarrow> bool" where
  "matchesHere s =
     (takeWhile isDigit s \<noteq> [] \<and>
      (case dropWhile isDigit s of
         c # s1 \<Rightarrow>
           c = CHR ''/'' \<and> takeWhile isDigit s1 \<noteq> [] \<and>
           (case dropWhile isDigit s1 of
              d # s2 \<Rightarrow> d = CHR ''/'' \<and> (case s2 of e # _ \<Rightarrow> isDigit e | [] \<Rightarrow> False)
            | [] \<Rightarrow> False)
       | [] \<Rightarrow> False))"

text \<open>\<open>/[0-9]+\/[0-9]+\/[0-9]+/.test(s)\<close>: the expression has no anchors, so the match may
  start anywhere.\<close>

fun testApplicationNumber :: "string \<Rightarrow> bool" where
  "testApplicationNumber [] = False"
| "testApplicationNumber (c # s) = (matchesHere (c # s) \<or> testApplicationNumber s)"

text \<open>
  The pattern in words: somewhere in the text there are one or more digits, a slash, one or
  more digits, a slash, and one or more digits.
\<close>

definition containsApplicationNumber :: "string \<Rightarrow> bool" where
  "containsApplicationNumber s =
     (\<exists>before digits1 digits2 digits3 after.
        s = before @ digits1 @ ''/'' @ digits2 @ ''/'' @ digits3 @ after \<and>
        digits1 \<noteq> [] \<and> digits2 \<noteq> [] \<and> digits3 \<noteq> [] \<and>
        (\<forall>c \<in> set (digits1 @ digits2 @ digits3). isDigit c))"

text \<open>One iteration of the loop over the rows: the application it pushes, if any, and
  what it logs.\<close>

definition gridRow ::
  "Environment \<Rightarrow> string \<Rightarrow> GridHeadings \<Rightarrow> Cell list
     \<Rightarrow> DevelopmentApplication option \<times> LogMessage list" where
  "gridRow env url headings row =
     (let applicationNumberCell = findRowCell (applicationNumberHeadingCell headings) row;
          receivedDateCell = findRowCell (receivedDateHeadingCell headings) row;
          legalDescriptionCell = findRowCell (legalDescriptionHeadingCell headings) row;
          streetNameCell = findRowCell (streetNameHeadingCell headings) row;
          suburbNameCell = findRowCell (suburbNameHeadingCell headings) row;
          descriptionCell = findRowCell (descriptionHeadingCell headings) row
      in case applicationNumberCell of
           None \<Rightarrow> (None, [])
         | Some numberCell \<Rightarrow>
             (let applicationNumber = trim (concat (map text (elements numberCell))) in
              if \<not> testApplicationNumber applicationNumber then (None, [])
              else
                (case streetNameCell of
                   None \<Rightarrow> (None, [FoundApplication applicationNumber, IgnoringNoStreetNameCell])
                 | Some streetCell \<Rightarrow>
                     (case suburbNameCell of
                        None \<Rightarrow> (None, [FoundApplication applicationNumber, IgnoringNoSuburbNameCell])
                      | Some suburbCell \<Rightarrow>
                          (let streetName = joinedText (elements streetCell);
                               suburbName = joinedText (elements suburbCell)
                           in if streetName = []
                              then (None, [FoundApplication applicationNumber, IgnoringNoStreetName])
                              else if suburbName = []
                              then (None, [FoundApplication applicationNumber, IgnoringNoSuburbName])
                              else
                                (let address = formatAddress env (streetName @ '', '' @ suburbName) in
                                 if address = []
                                 then (None, [FoundApplication applicationNumber, IgnoringBlankAddress])
                                 else
                                   (let description =
                                          (case descriptionCell of
                                             None \<Rightarrow> []
                                           | Some cell \<Rightarrow> joinedText (elements cell));
                                        receivedDate =
                                          (case receivedDateCell of
                                             None \<Rightarrow> None
                                           | Some cell \<Rightarrow>
                                               (case elements cell of
                                                  [] \<Rightarrow> None
                                                | element # _ \<Rightarrow>
                                                    momentStrict env (trim (text element)) ''D/MM/YYYY''));
                                        legalDescription =
                                          (case legalDescriptionCell of
                                             None \<Rightarrow> []
                                           | Some cell \<Rightarrow> joinedText (elements cell))
                                    in (Some \<lparr>applicationNumber = applicationNumber,
                                              address = address,
                                              description =
                                                (if description = [] then ''No Description Provided''
                                                 else description),
                                              informationUrl = url,
                                              commentUrl = CommentUrl,
                                              scrapeDate = today env,
                                              receivedDate =
                                                (case receivedDate of Some d \<Rightarrow> d | None \<Rightarrow> []),
                                              legalDescription = legalDescription\<rparr>,
                                        [FoundApplication applicationNumber]))))))))"

text \<open>The loop over the rows of a page.\<close>

fun gridRows ::
  "Environment \<Rightarrow> string \<Rightarrow> GridHeadings \<Rightarrow> Cell list list
     \<Rightarrow> DevelopmentApplication list \<times> LogMessage list" where
  "gridRows env url headings [] = ([], [])"
| "gridRows env url headings (row # rows) =
     (let (application, messages) = gridRow env url headings row;
          (applications, messages') = gridRows env url headings rows
      in ((case application of None \<Rightarrow> [] | Some a \<Rightarrow> [a]) @ applications, messages @ messages'))"

text \<open>The cells and the elements of a page as the loop over the rows finds them: inverted,
  sorted, and each element pushed to its owner.\<close>

definition pageElements :: "Element list \<Rightarrow> Element list" where
  "pageElements es = jsSort elementComparer (map invertY es)"

definition pageCells :: "Cell list \<Rightarrow> Element list \<Rightarrow> Cell list" where
  "pageCells cells es =
     allocateElements (pageElements es) (jsSort cellComparer (map invertY cells))"

text \<open>One iteration of the loop over the pages, after the page has been decoded.\<close>

definition gridPage ::
  "Environment \<Rightarrow> string \<Rightarrow> Cell list \<times> Element list
     \<Rightarrow> DevelopmentApplication list \<times> LogMessage list" where
  "gridPage env url page =
     (let es = pageElements (snd page);
          cells = pageCells (fst page) (snd page);
          rows = groupRows cells
      in if rows = [] then ([], [NoRowsFound (elementSummary es)])
         else
           (let sortedRows = map (jsSort rowCellComparer) (jsSort rowComparer rows);
                headings = findGridHeadings cells
            in if applicationNumberHeadingCell headings = None
               then ([], [HeadingNotFound ''D/A Number'' (elementSummary es)])
               else if streetNameHeadingCell headings = None
               then ([], [HeadingNotFound ''Street Name'' (elementSummary es)])
               else if suburbNameHeadingCell headings = None
               then ([], [HeadingNotFound ''Town'' (elementSummary es)])
               else gridRows env url headings sortedRows))"

fun gridPages ::
  "Environment \<Rightarrow> string \<Rightarrow> nat \<Rightarrow> nat \<Rightarrow> (Cell list \<times> Element list) list
     \<Rightarrow> DevelopmentApplication list \<times> LogMessage list" where
  "gridPages env url numPages pageIndex [] = ([], [])"
| "gridPages env url numPages pageIndex (page # pages) =
     (let (applications, messages) = gridPage env url page;
          (applications', messages') = gridPages env url numPages (pageIndex + 1) pages
      in (applications @ applications',
          ReadingPage (pageIndex + 1) numPages # messages @ messages'))"

text \<open>\<open>parsePdf\<close> of the grid strategy, from the decoded pages of the document.\<close>

definition parsePdfGrid ::
  "Environment \<Rightarrow> string \<Rightarrow> (Cell list \<times> Element list) list
     \<Rightarrow> DevelopmentApplication list \<times> LogMessage list" where
  "parsePdfGrid env url pages =
     (let (applications, messages) = gridPages env url (length pages) 0 pages
      in (applications, ReadingPdf url # messages))"

section \<open>Column mode\<close>

record ColumnHeadings =
  receivedDateHeadingElement :: "Element option"
  lotNumberHeadingElement :: "Element option"
  houseNumberHeadingElement :: "Element option"
  streetNameHeadingElement :: "Element option"
  planHeadingElement :: "Element option"
  suburbNameHeadingElement :: "Element option"
  descriptionHeadingElement :: "Element option"

text \<open>Before the first page every heading element is \<open>undefined\<close>.\<close>

definition noHeadings :: ColumnHeadings where
  "noHeadings =
     \<lparr>receivedDateHeadingElement = None, lotNumberHeadingElement = None,
      houseNumberHeadingElement = None, streetNameHeadingElement = None,
      planHeadingElement = None, suburbNameHeadingElement = None,
      descriptionHeadingElement = None\<rparr>"

text \<open>\<open>element.text.toUpperCase().replace(/[^A-Z]/g, "")\<close>\<close>

definition headingText :: "Element \<Rightarrow> string" where
  "headingText element = keepUpper (toUpperCase (text element))"

definition findHeadingElement :: "string \<Rightarrow> Element list \<Rightarrow> Element option" where
  "findHeadingElement heading row = List.find (\<lambda>element. headingText element = heading) row"

definition captureHeadings :: "Element list \<Rightarrow> ColumnHeadings" where
  "captureHeadings row =
     \<lparr>receivedDateHeadingElement = findHeadingElement ''LODGED'' row,
      lotNumberHeadingElement = findHeadingElement ''LOTNO'' row,
      houseNumberHeadingElement = findHeadingElement ''STNO'' row,
      streetNameHeadingElement = findHeadingElement ''STNAME'' row,
      planHeadingElement = findHeadingElement ''FPDP'' row,
      suburbNameHeadingElement = findHeadingElement ''SUBURBHDOF'' row,
      descriptionHeadingElement = findHeadingElement ''DESCRIPTIONOFDEVELOPMENT'' row\<rparr>"

text \<open>\<open>row.filter(element => getHorizontalOverlapPercentage(headingElement, element) > 0)\<close>,
  joined to one text.\<close>

definition columnText :: "Element option \<Rightarrow> Element list \<Rightarrow> string" where
  "columnText headingElement row =
     joinedText (filter (\<lambda>element. getHorizontalOverlapPercentage headingElement (Some element) > 0) row)"

text \<open>\<open>/^HD /.test(s)\<close> and \<open>s.replace(/^HD /i, "")\<close>\<close>

definition startsWithHD :: "string \<Rightarrow> bool" where
  "startsWithHD s = prefix ''HD '' s"

definition startsWithHDIgnoringCase :: "string \<Rightarrow> bool" where
  "startsWithHDIgnoringCase s =
     (case s of
        h # d # c # _ \<Rightarrow> toUpperChar h = CHR ''H'' \<and> toUpperChar d = CHR ''D'' \<and> c = CHR '' ''
      | _ \<Rightarrow> False)"

definition stripHD :: "string \<Rightarrow> string" where
  "stripHD s = (if startsWithHDIgnoringCase s then drop 3 s else s)"

text \<open>The suburb name and the hundred name from the text under the suburb heading.\<close>

definition splitSuburb :: "string \<Rightarrow> string \<times> string" where
  "splitSuburb suburbText =
     (let suburbNameTokens = split CHR ''/'' suburbText;
          (suburbName, hundredName) =
            (case suburbNameTokens of
               [token0, token1] \<Rightarrow>
                 (if startsWithHD (trim token1) then (trim token0, trim token1)
                  else (trim token1, trim token0))
             | _ \<Rightarrow> (suburbText, []))
      in (stripHD suburbName, stripHD hundredName))"

text \<open>\<open>legalDescriptionItems.join(", ")\<close>\<close>

definition columnLegalDescription :: "string \<Rightarrow> string \<Rightarrow> string \<Rightarrow> string" where
  "columnLegalDescription lotNumber plan hundredName =
     join '', ''
       ((if lotNumber \<noteq> [] then [''Lot '' @ lotNumber] else []) @
        (if plan \<noteq> [] then [''Plan '' @ plan] else []) @
        (if hundredName \<noteq> [] then [''Hundred '' @ hundredName] else []))"

text \<open>
  \<open>developmentApplications\<close> is an array that the program uses as an object, with the
  application numbers as keys: an association list in insertion order here (an application
  number is not the name of a property that arrays inherit).
\<close>

type_synonym Applications = "(string \<times> DevelopmentApplication) list"

definition newApplication :: "Environment \<Rightarrow> string \<Rightarrow> string \<Rightarrow> DevelopmentApplication" where
  "newApplication env url number =
     \<lparr>applicationNumber = number,
      address = [],
      description = ''No Description Provided'',
      informationUrl = url,
      commentUrl = CommentUrl,
      scrapeDate = today env,
      receivedDate = [],
      legalDescription = []\<rparr>"

text \<open>The values that one row gives for an application.\<close>

record RowDetails =
  rowApplicationNumber :: string
  rowReceivedDate :: "string option"
  rowAddress :: string
  rowLegalDescription :: string
  rowDescription :: string

text \<open>The assignments that end the loop body: what the row does to the application.\<close>

definition updateApplication ::
  "ColumnHeadings \<Rightarrow> RowDetails \<Rightarrow> DevelopmentApplication \<Rightarrow> DevelopmentApplication" where
  "updateApplication headings details developmentApplication =
     (let a1 = (if receivedDateHeadingElement headings \<noteq> None
                then developmentApplication
                       \<lparr>receivedDate := (case rowReceivedDate details of Some d \<Rightarrow> d | None \<Rightarrow> [])\<rparr>
                else developmentApplication);
          a2 = (if houseNumberHeadingElement headings \<noteq> None \<or>
                   streetNameHeadingElement headings \<noteq> None \<or>
                   suburbNameHeadingElement headings \<noteq> None
                then a1\<lparr>address := rowAddress details\<rparr> else a1);
          a3 = (if lotNumberHeadingElement headings \<noteq> None \<or>
                   planHeadingElement headings \<noteq> None \<or>
                   suburbNameHeadingElement headings \<noteq> None
                then a2\<lparr>legalDescription := rowLegalDescription details\<rparr> else a2)
      in if descriptionHeadingElement headings \<noteq> None \<and> rowDescription details \<noteq> []
         then a3\<lparr>description := rowDescription details\<rparr> else a3)"

text \<open>The application of the row is looked up by its number, created when it is not there
  yet, and updated in place.\<close>

definition mergeApplication ::
  "Environment \<Rightarrow> string \<Rightarrow> ColumnHeadings \<Rightarrow> RowDetails \<Rightarrow> Applications \<Rightarrow> Applications" where
  "mergeApplication env url headings details developmentApplications =
     (let number = rowApplicationNumber details in
      case map_of developmentApplications number of
        None \<Rightarrow>
          developmentApplications @
            [(number, updateApplication headings details (newApplication env url number))]
      | Some developmentApplication \<Rightarrow>
          map (\<lambda>(key, a). if key = number then (key, updateApplication headings details a)
                          else (key, a))
            developmentApplications)"

text \<open>The details of the application of an anchor row, under the current headings.\<close>

definition rowDetails :: "Environment \<Rightarrow> ColumnHeadings \<Rightarrow> Element \<Rightarrow> Element list \<Rightarrow> RowDetails" where
  "rowDetails env headings leftmostElement row =
     (let applicationNumber = trim (removeSpaces (text leftmostElement));
          receivedDate =
            momentStrict env (columnText (receivedDateHeadingElement headings) row) ''D-MMM-YY'';
          lotNumber = columnText (lotNumberHeadingElement headings) row;
          houseNumber = columnText (houseNumberHeadingElement headings) row;
          streetName = columnText (streetNameHeadingElement headings) row;
          plan = columnText (planHeadingElement headings) row;
          (suburbName, hundredName) =
            splitSuburb (columnText (suburbNameHeadingElement headings) row);
          address =
            formatAddress env
              (if streetName \<noteq> [] \<and> suburbName \<noteq> []
               then toUpperCase (houseNumber @ '' '' @ streetName @ '', '' @ suburbName)
               else []);
          description0 = columnText (descriptionHeadingElement headings) row;
          description = (if description0 = [] then ''No Description Provided'' else description0);
          legalDescription = columnLegalDescription lotNumber plan hundredName
      in \<lparr>rowApplicationNumber = applicationNumber,
          rowReceivedDate = receivedDate,
          rowAddress = address,
          rowLegalDescription = legalDescription,
          rowDescription = description\<rparr>)"

text \<open>
  The loop over the anchor elements of a page. \<open>previous\<close> is the anchor before the current
  one, \<open>None\<close> at index 0. The state is the pair of the heading elements and the
  applications, both of which outlive the page.
\<close>

fun columnRows ::
  "Environment \<Rightarrow> string \<Rightarrow> Element list \<Rightarrow> Element option \<Rightarrow> Element list
     \<Rightarrow> ColumnHeadings \<times> Applications \<Rightarrow> ColumnHeadings \<times> Applications" where
  "columnRows env url es previous [] state = state"
| "columnRows env url es previous (leftmostElement # anchors) state =
     (let row = filter (\<lambda>element. y element \<le> y leftmostElement \<and>
                          (case previous of None \<Rightarrow> True | Some p \<Rightarrow> y element > y p)) es
      in if previous = None \<and> headingText leftmostElement = ''DEVNO''
         then columnRows env url es (Some leftmostElement) anchors (captureHeadings row, snd state)
         else columnRows env url es (Some leftmostElement) anchors
                (fst state,
                 mergeApplication env url (fst state)
                   (rowDetails env (fst state) leftmostElement row) (snd state)))"

text \<open>\<open>elements.reduce((previous, current) => previous === undefined ? current :
  (current.x < previous.x ? current : previous), undefined)\<close>\<close>

definition leftmost :: "Element list \<Rightarrow> Element option" where
  "leftmost es =
     foldl (\<lambda>previous current.
              case previous of
                None \<Rightarrow> Some current
              | Some p \<Rightarrow> (if x current < x p then Some current else Some p)) None es"

definition anchorElements :: "Element list \<Rightarrow> Element list" where
  "anchorElements es =
     (case leftmost es of
        None \<Rightarrow> []
      | Some leftmostElement \<Rightarrow>
          jsSort yComparer
            (filter (\<lambda>element. \<bar>subD (x element) (x leftmostElement)\<bar> < 20) es))"

definition columnPage ::
  "Environment \<Rightarrow> string \<Rightarrow> Element list \<Rightarrow> ColumnHeadings \<times> Applications
     \<Rightarrow> ColumnHeadings \<times> Applications" where
  "columnPage env url page state =
     (let es = jsSort elementComparer (map invertY page)
      in columnRows env url es None (anchorElements es) state)"

definition columnPages ::
  "Environment \<Rightarrow> string \<Rightarrow> Element list list \<Rightarrow> ColumnHeadings \<times> Applications" where
  "columnPages env url pages =
     foldl (\<lambda>state page. columnPage env url page state) (noHeadings, []) pages"

text \<open>The loop that removes the applications without a number or an address.
  \<open>previousApplicationNumber\<close> is \<open>None\<close> while it is \<open>undefined\<close>.\<close>

fun filterApplications ::
  "string option \<Rightarrow> DevelopmentApplication list
     \<Rightarrow> DevelopmentApplication list \<times> LogMessage list" where
  "filterApplications previousApplicationNumber [] = ([], [])"
| "filterApplications previousApplicationNumber (developmentApplication # rest) =
     (if applicationNumber developmentApplication = []
      then (let (filtered, messages) = filterApplications previousApplicationNumber rest
            in (filtered, IgnoringBlankNumber previousApplicationNumber # messages))
      else if address developmentApplication = []
      then (let (filtered, messages) = filterApplications previousApplicationNumber rest
            in (filtered,
                IgnoringBlankAddressOf (applicationNumber developmentApplication)
                  previousApplicationNumber # messages))
      else (let (filtered, messages) =
                  filterApplications (Some (applicationNumber developmentApplication)) rest
            in (developmentApplication # filtered, messages)))"

text \<open>An application can be stored when it has a number and an address.\<close>

definition validApplication :: "DevelopmentApplication \<Rightarrow> bool" where
  "validApplication a = (applicationNumber a \<noteq> [] \<and> address a \<noteq> [])"

text \<open>The value of \<open>previousApplicationNumber\<close> after the loop has gone through the
  applications \<open>as\<close>: the number of the last of them that was kept.\<close>

definition previousValid :: "string option \<Rightarrow> DevelopmentApplication list \<Rightarrow> string option" where
  "previousValid previousApplicationNumber as =
     (case rev (filter validApplication as) of
        [] \<Rightarrow> previousApplicationNumber
      | a # _ \<Rightarrow> Some (applicationNumber a))"

text \<open>What the loop logs for an application that it drops.\<close>

definition ignoringMessage :: "DevelopmentApplication \<Rightarrow> string option \<Rightarrow> LogMessage" where
  "ignoringMessage a previousApplicationNumber =
     (if applicationNumber a = [] then IgnoringBlankNumber previousApplicationNumber
      else IgnoringBlankAddressOf (applicationNumber a) previousApplicationNumber)"

text \<open>\<open>parsePdf\<close> of the column strategy, from the decoded pages of the document.\<close>

definition parsePdfColumn ::
  "Environment \<Rightarrow> string \<Rightarrow> Element list list
     \<Rightarrow> DevelopmentApplication list \<times> LogMessage list" where
  "parsePdfColumn env url pages =
     (let developmentApplications = snd (columnPages env url pages);
          (filtered, messages) = filterApplications None (map snd developmentApplications)
      in (filtered,
          ReadingPdf url # map (\<lambda>pageIndex. ReadingPage (pageIndex + 1) (length pages))
                              [0..<length pages] @ messages))"

section \<open>An environment for the examples\<close>

text \<open>
  The examples run the model with two streets, two street suffixes and one suburb. Their
  matcher is a first closest match by edit distance: the input and the candidates are
  trimmed, their runs of white space become one space and their case is ignored, and the
  first of the candidates at the least edit distance is returned when that distance is
  within the threshold. Their date parser knows two dates.
\<close>

text \<open>\<open>s.trim().replace(/\s+/g, " ")\<close>, in lower case.\<close>

function squeezeSpaces :: "string \<Rightarrow> string" where
  "squeezeSpaces [] = []"
| "squeezeSpaces (c # s) =
     (if isSpace c then CHR '' '' # squeezeSpaces (dropWhile isSpace s)
      else c # squeezeSpaces s)"
  by pat_completeness auto
termination
  by (relation "measure length") (auto simp: less_Suc_eq_le length_dropWhile_le)

definition normalise :: "string \<Rightarrow> string" where
  "normalise s = toLowerCase (squeezeSpaces (trim s))"

text \<open>One more row of the table of the edit distances: \<open>row\<close> is the row above, from the
  column of the current character on, and \<open>done\<close> is the new row so far, in reverse.\<close>

fun nextRow :: "char \<Rightarrow> string \<Rightarrow> nat list \<Rightarrow> nat list \<Rightarrow> nat list" where
  "nextRow a (b # t) (diagonal # up # row) (left # done) =
     nextRow a t (up # row)
       (min (min (up + 1) (left + 1)) (diagonal + (if a = b then 0 else 1)) # left # done)"
| "nextRow a t row done = rev done"

fun distanceRows :: "string \<Rightarrow> string \<Rightarrow> nat list \<Rightarrow> nat" where
  "distanceRows (a # s) t (first # row) =
     distanceRows s t (nextRow a t (first # row) [first + 1])"
| "distanceRows s t row = last row"

text \<open>The number of insertions, deletions and substitutions of characters that turn \<open>s\<close>
  into \<open>t\<close>.\<close>

definition editDistance :: "string \<Rightarrow> string \<Rightarrow> nat" where
  "editDistance s t = distanceRows s t [0..<length t + 1]"

text \<open>The first of the candidates at the least distance within the threshold; \<open>best\<close> is
  the best candidate so far, with its distance.\<close>

fun closestMatch ::
  "string \<Rightarrow> nat \<Rightarrow> (nat \<times> string) option \<Rightarrow> string list \<Rightarrow> string option" where
  "closestMatch input threshold best [] = map_option snd best"
| "closestMatch input threshold best (candidate # candidates) =
     (if editDistance input (normalise candidate) \<le> threshold \<and>
         (case best of
            None \<Rightarrow> True
          | Some (distance, _) \<Rightarrow> editDistance input (normalise candidate) < distance)
      then closestMatch input threshold
             (Some (editDistance input (normalise candidate), candidate)) candidates
      else closestMatch input threshold best candidates)"

definition exampleDidYouMean :: "string \<Rightarrow> string list \<Rightarrow> nat \<Rightarrow> string option" where
  "exampleDidYouMean input candidates threshold =
     closestMatch (normalise input) threshold None candidates"

definition exampleMoment :: "string \<Rightarrow> string \<Rightarrow> string option" where
  "exampleMoment s format =
     (if s = ''1/02/2019'' \<and> format = ''D/MM/YYYY'' then Some ''2019-02-01''
      else if s = ''1-Feb-19'' \<and> format = ''D-MMM-YY'' then Some ''2019-02-01''
      else None)"

definition exampleEnvironment :: Environment where
  "exampleEnvironment =
     \<lparr>StreetNames = [(''MAIN STREET'', [''SOMETON'']), (''HIGH ROAD'', [''SOMETON''])],
      StreetSuffixes = [(''ST'', ''STREET''), (''RD'', ''ROAD'')],
      SuburbNames = [(''SOMETON'', ''SOMETON SA 5607'')],
      didYouMean = exampleDidYouMean,
      momentStrict = exampleMoment,
      today = ''2019-02-27''\<rparr>"

definition exampleUrl :: string where
  "exampleUrl = ''register.pdf''"

text \<open>
  A page of the column strategy: a heading row, an application with its street and its
  suburb, and a later row with the same application number and nothing else.
\<close>

definition headingRow :: "Element list" where
  "headingRow =
     [\<lparr>x = 10, y = 700, width = 40, height = 10, text = ''DEV NO.''\<rparr>,
      \<lparr>x = 100, y = 700, width = 50, height = 10, text = ''ST NAME''\<rparr>,
      \<lparr>x = 200, y = 700, width = 80, height = 10, text = ''SUBURB/HD OF''\<rparr>,
      \<lparr>x = 300, y = 700, width = 150, height = 10, text = ''DESCRIPTION OF DEVELOPMENT''\<rparr>]"

definition firstRow :: "Element list" where
  "firstRow =
     [\<lparr>x = 10, y = 680, width = 50, height = 10, text = ''371/001/19''\<rparr>,
      \<lparr>x = 100, y = 680, width = 40, height = 10, text = ''Main St''\<rparr>,
      \<lparr>x = 200, y = 680, width = 50, height = 10, text = ''Someton''\<rparr>,
      \<lparr>x = 300, y = 680, width = 30, height = 10, text = ''Shed''\<rparr>]"

definition secondRow :: "Element list" where
  "secondRow = [\<lparr>x = 10, y = 660, width = 50, height = 10, text = ''371/001/19''\<rparr>]"


text \<open>
  A page of the grid strategy: a heading row and one row below it, four columns wide. The
  cell under the heading of the proposals is empty.
\<close>

definition gridCells :: "Cell list" where
  "gridCells =
     [\<lparr>x = 0, y = 680, width = 100, height = 20, elements = []\<rparr>,
      \<lparr>x = 100, y = 680, width = 100, height = 20, elements = []\<rparr>,
      \<lparr>x = 200, y = 680, width = 100, height = 20, elements = []\<rparr>,
      \<lparr>x = 300, y = 680, width = 200, height = 20, elements = []\<rparr>,
      \<lparr>x = 0, y = 700, width = 100, height = 20, elements = []\<rparr>,
      \<lparr>x = 100, y = 700, width = 100, height = 20, elements = []\<rparr>,
      \<lparr>x = 200, y = 700, width = 100, height = 20, elements = []\<rparr>,
      \<lparr>x = 300, y = 700, width = 200, height = 20, elements = []\<rparr>]"

definition gridHeadingElements :: "Element list" where
  "gridHeadingElements =
     [\<lparr>x = 105, y = 705, width = 70, height = 10, text = ''Street Name''\<rparr>,
      \<lparr>x = 205, y = 705, width = 30, height = 10, text = ''Town''\<rparr>,
      \<lparr>x = 305, y = 705, width = 50, height = 10, text = ''Proposal''\<rparr>]"

definition gridNumberHeading :: Element where
  "gridNumberHeading = \<lparr>x = 5, y = 705, width = 60, height = 10, text = ''D/A Number''\<rparr>"

definition gridRowElements :: "Element list" where
  "gridRowElements =
     [\<lparr>x = 5, y = 685, width = 60, height = 10, text = ''910/144/16''\<rparr>,
      \<lparr>x = 105, y = 685, width = 60, height = 10, text = ''12 Main St''\<rparr>,
      \<lparr>x = 205, y = 685, width = 50, height = 10, text = ''Someton''\<rparr>]"

text \<open>
  A later section of a document of the column strategy, in which the description is the
  only heading, and what a row of that section gives for an application.
\<close>

definition continuationHeadings :: ColumnHeadings where
  "continuationHeadings =
     noHeadings\<lparr>descriptionHeadingElement :=
       Some \<lparr>x = 100, y = - 310, width = 150, height = 10, text = ''DESCRIPTION OF DEVELOPMENT''\<rparr>\<rparr>"

definition continuationDetails :: RowDetails where
  "continuationDetails =
     \<lparr>rowApplicationNumber = ''371/001/19'', rowReceivedDate = None, rowAddress = [],
      rowLegalDescription = [], rowDescription = ''Shed and verandah''\<rparr>"

text \<open>The page of the grid strategy with all its elements.\<close>

definition gridPageExample :: "Cell list \<times> Element list" where
  "gridPageExample = (gridCells, gridNumberHeading # gridHeadingElements @ gridRowElements)"

text \<open>The same page without the heading of the application numbers.\<close>

definition gridPageWithoutNumber :: "Cell list \<times> Element list" where
  "gridPageWithoutNumber = (gridCells, gridHeadingElements @ gridRowElements)"

text \<open>The heading cells of the page with all its elements, its heading row, and the cell
  of that row under the heading of the application numbers.\<close>

definition gridHeadings :: GridHeadings where
  "gridHeadings = findGridHeadings (pageCells (fst gridPageExample) (snd gridPageExample))"

definition gridHeadingRow :: "Cell list" where
  "gridHeadingRow = hd (groupRows (pageCells (fst gridPageExample) (snd gridPageExample)))"

definition numberHeadingCell :: Cell where
  "numberHeadingCell =
     \<lparr>x = 0, y = - 720, width = 100, height = 20,
      elements = [\<lparr>x = 5, y = - 715, width = 60, height = 10, text = ''D/A Number''\<rparr>]\<rparr>"

section \<open>Rounding\<close>

lemma bitlen_powi_bounds:
  assumes "0 < p"
  shows "(2::rat) powi (bitlen p - 1) \<le> of_int p" and "of_int p < (2::rat) powi (bitlen p)"
proof -
  from bitlen_bounds [OF assms] have b: "2 ^ nat (bitlen p - 1) \<le> p" "p < 2 ^ nat (bitlen p)"
    by auto
  have pos: "0 < bitlen p" using b(2) assms by (cases "bitlen p \<le> 0") auto
  have "(2::rat) powi (bitlen p - 1) = 2 ^ nat (bitlen p - 1)"
    using pos by (simp add: power_int_def)
  also have "\<dots> = of_int (2 ^ nat (bitlen p - 1))" by simp
  also have "\<dots> \<le> of_int p" using b(1) by (simp only: of_int_le_iff)
  finally show "(2::rat) powi (bitlen p - 1) \<le> of_int p" .
  have "(of_int p :: rat) < of_int (2 ^ nat (bitlen p))" using b(2) by (simp only: of_int_less_iff)
  also have "\<dots> = 2 powi (bitlen p)" using pos by (simp add: power_int_def)
  finally show "of_int p < (2::rat) powi (bitlen p)" .
qed

lemma binade_bounds:
  assumes "0 < a"
  shows "2 powi (binade a) \<le> a" and "a < 2 powi (binade a + 1)"
proof -
  obtain p q where pq: "quotient_of a = (p, q)" by (cases "quotient_of a")
  then have q: "0 < q" by (rule quotient_of_denom_pos)
  from pq have a: "a = of_int p / of_int q" by (rule quotient_of_div)
  with assms q have p: "0 < p" by (simp add: zero_less_divide_iff)
  let ?d = "bitlen p - bitlen q"
  have lower: "2 powi (?d - 1) < a"
  proof -
    have "(2::rat) powi (?d - 1) = 2 powi (bitlen p - 1) / 2 powi (bitlen q)"
      by (simp add: power_int_diff)
    also have "\<dots> \<le> of_int p / 2 powi (bitlen q)"
      using bitlen_powi_bounds(1) [OF p] by (simp add: divide_right_mono)
    also have "\<dots> < of_int p / of_int q"
      using bitlen_powi_bounds(2) [OF q] p q by (simp add: divide_strict_left_mono)
    finally show ?thesis by (simp add: a)
  qed
  have upper: "a < 2 powi (?d + 1)"
  proof -
    have "a = of_int p / of_int q" by (rule a)
    also have "\<dots> < 2 powi (bitlen p) / of_int q"
      using bitlen_powi_bounds(2) [OF p] q by (simp add: divide_strict_right_mono)
    also have "\<dots> \<le> 2 powi (bitlen p) / 2 powi (bitlen q - 1)"
      using bitlen_powi_bounds(1) [OF q] q by (intro divide_left_mono) auto
    also have "\<dots> = 2 powi (?d + 1)"
      by (simp add: power_int_diff power_int_add)
    finally show ?thesis .
  qed
  show "2 powi (binade a) \<le> a"
    using lower by (auto simp: binade_def pq)
  show "a < 2 powi (binade a + 1)"
    using upper by (auto simp: binade_def pq not_le)
qed

lemma powi_less_imp_less: "(2::rat) powi m < 2 powi n \<Longrightarrow> m < n"
  using power_int_increasing [of n m "2::rat"] by (cases "n \<le> m") auto

lemma binade_unique:
  assumes "2 powi k \<le> a" and "a < 2 powi (k + 1)"
  shows "binade a = k"
proof -
  have pos: "0 < a" by (rule less_le_trans [OF _ assms(1)]) simp
  from binade_bounds [OF pos] have b: "2 powi (binade a) \<le> a" "a < 2 powi (binade a + 1)" .
  have "(2::rat) powi k < 2 powi (binade a + 1)" using assms(1) b(2) by simp
  then have "k < binade a + 1" by (rule powi_less_imp_less)
  moreover have "(2::rat) powi (binade a) < 2 powi (k + 1)" using assms(2) b(1) by simp
  then have "binade a < k + 1" by (rule powi_less_imp_less)
  ultimately show ?thesis by simp
qed


lemma binade_mono:
  assumes "0 < a" and "a \<le> b"
  shows "binade a \<le> binade b"
proof -
  from assms have b: "0 < b" by simp
  have "(2::rat) powi (binade a) \<le> a" using binade_bounds(1) [OF assms(1)] .
  also have "a \<le> b" by fact
  also have "b < 2 powi (binade b + 1)" using binade_bounds(2) [OF b] .
  finally have "binade a < binade b + 1" by (rule powi_less_imp_less)
  then show ?thesis by simp
qed

lemma roundHalfEven_of_int [simp]: "roundHalfEven (of_int k) = k"
  by (simp add: roundHalfEven_def)

lemma roundHalfEven_error: "\<bar>of_int (roundHalfEven a) - a\<bar> \<le> 1 / 2"
proof -
  have "of_int \<lfloor>a\<rfloor> \<le> a" "a < of_int \<lfloor>a\<rfloor> + 1" by linarith+
  then show ?thesis unfolding roundHalfEven_def by (auto simp: abs_le_iff)
qed

lemma roundHalfEven_between: "\<lfloor>a\<rfloor> \<le> roundHalfEven a" "roundHalfEven a \<le> \<lfloor>a\<rfloor> + 1"
  by (auto simp: roundHalfEven_def)

lemma roundHalfEven_mono:
  assumes "a \<le> b"
  shows "roundHalfEven a \<le> roundHalfEven b"
proof (cases "\<lfloor>a\<rfloor> = \<lfloor>b\<rfloor>")
  case True
  with assms show ?thesis by (auto simp: roundHalfEven_def)
next
  case False
  with assms have "\<lfloor>a\<rfloor> + 1 \<le> \<lfloor>b\<rfloor>" using floor_mono [OF assms] by linarith
  with roundHalfEven_between(2) [of a] roundHalfEven_between(1) [of b] show ?thesis by linarith
qed


lemma double_pos_eq:
  "0 < a \<Longrightarrow>
   double a = of_int (roundHalfEven (a / 2 powi (binade a - 52))) * 2 powi (binade a - 52)"
  by (simp add: double_def)

lemma double_minus: "double (- a) = - double a"
  by (simp add: double_def sgn_minus)

lemma double_zero [simp]: "double 0 = 0"
  by (simp add: double_def)

lemma scaled_bounds:
  assumes "0 < a"
  shows "2 ^ 52 \<le> a / 2 powi (binade a - 52)" and "a / 2 powi (binade a - 52) < 2 ^ 53"
proof -
  have u: "(0::rat) < 2 powi (binade a - 52)" by simp
  have "(2::rat) ^ 52 * 2 powi (binade a - 52) = 2 powi (binade a)"
    by (simp add: power_int_diff)
  with binade_bounds(1) [OF assms] show "2 ^ 52 \<le> a / 2 powi (binade a - 52)"
    using u by (simp add: pos_le_divide_eq)
  have "(2::rat) ^ 53 * 2 powi (binade a - 52) = 2 powi (binade a + 1)"
    by (simp add: power_int_diff power_int_add)
  with binade_bounds(2) [OF assms] show "a / 2 powi (binade a - 52) < 2 ^ 53"
    using u by (simp add: pos_divide_less_eq)
qed

lemma double_bounds:
  assumes "0 < a"
  shows "2 powi (binade a) \<le> double a" and "double a \<le> 2 powi (binade a + 1)"
proof -
  have u: "(0::rat) < 2 powi (binade a - 52)" by simp
  have "roundHalfEven (of_int (2 ^ 52)) \<le> roundHalfEven (a / 2 powi (binade a - 52))"
    using scaled_bounds(1) [OF assms] by (intro roundHalfEven_mono) simp
  then have "(2::rat) ^ 52 \<le> of_int (roundHalfEven (a / 2 powi (binade a - 52)))"
    by (simp only: roundHalfEven_of_int) (metis of_int_le_iff of_int_numeral of_int_power)
  then have "(2::rat) ^ 52 * 2 powi (binade a - 52) \<le> double a"
    unfolding double_pos_eq [OF assms] using u by (simp add: mult_right_mono)
  then show "2 powi (binade a) \<le> double a" by (simp add: power_int_diff)
  have "roundHalfEven (a / 2 powi (binade a - 52)) \<le> roundHalfEven (of_int (2 ^ 53))"
    using scaled_bounds(2) [OF assms] by (intro roundHalfEven_mono) simp
  then have "of_int (roundHalfEven (a / 2 powi (binade a - 52))) \<le> (2::rat) ^ 53"
    by (simp only: roundHalfEven_of_int) (metis of_int_le_iff of_int_numeral of_int_power)
  then have "double a \<le> (2::rat) ^ 53 * 2 powi (binade a - 52)"
    unfolding double_pos_eq [OF assms] using u by (simp add: mult_right_mono)
  then show "double a \<le> 2 powi (binade a + 1)" by (simp add: power_int_diff power_int_add)
qed

lemma double_pos: "0 < a \<Longrightarrow> 0 < double a"
  using double_bounds(1) [of a] by (rule_tac less_le_trans [of _ "2 powi (binade a)"]) simp_all

lemma double_mono_pos:
  assumes "0 < a" and "a \<le> b"
  shows "double a \<le> double b"
proof (cases "binade a = binade b")
  case True
  from assms have b: "0 < b" by simp
  have "a / 2 powi (binade b - 52) \<le> b / 2 powi (binade b - 52)"
    using assms(2) by (simp add: divide_right_mono)
  then have "roundHalfEven (a / 2 powi (binade b - 52)) \<le> roundHalfEven (b / 2 powi (binade b - 52))"
    by (rule roundHalfEven_mono)
  then show ?thesis
    unfolding double_pos_eq [OF assms(1)] double_pos_eq [OF b] True
    by (simp add: mult_right_mono)
next
  case False
  from assms have b: "0 < b" by simp
  from False binade_mono [OF assms] have "binade a + 1 \<le> binade b" by simp
  then have "(2::rat) powi (binade a + 1) \<le> 2 powi (binade b)"
    by (intro power_int_increasing) simp_all
  with double_bounds(2) [OF assms(1)] double_bounds(1) [OF b] show ?thesis by linarith
qed

lemma double_mono:
  assumes "a \<le> b"
  shows "double a \<le> double b"
proof -
  consider "0 < a" | "a \<le> 0" "0 < b" | "a < 0" "b \<le> 0" "b < 0" | "a \<le> 0" "b = 0" | "a = 0" "b \<le> 0"
    using assms by linarith
  then show ?thesis
  proof cases
    case 1
    then show ?thesis using assms by (rule double_mono_pos)
  next
    case 2
    have "double a \<le> 0"
    proof (cases "a = 0")
      case True then show ?thesis by simp
    next
      case False
      with 2 have "0 < - a" by simp
      from double_pos [OF this] show ?thesis by (simp add: double_minus)
    qed
    with double_pos [OF 2(2)] show ?thesis by linarith
  next
    case 3
    then have "0 < - b" "- b \<le> - a" using assms by simp_all
    from double_mono_pos [OF this] show ?thesis by (simp add: double_minus)
  next
    case 4
    have "double a \<le> 0"
    proof (cases "a = 0")
      case True then show ?thesis by simp
    next
      case False
      with 4 have "0 < - a" by simp
      from double_pos [OF this] show ?thesis by (simp add: double_minus)
    qed
    with 4 show ?thesis by simp
  next
    case 5
    with assms have "b = 0" by simp
    with 5 show ?thesis by simp
  qed
qed

lemma double_error:
  assumes "0 < a"
  shows "\<bar>double a - a\<bar> \<le> a / 2 ^ 53"
proof -
  let ?u = "(2::rat) powi (binade a - 52)"
  have u: "0 < ?u" by simp
  have "double a - a = (of_int (roundHalfEven (a / ?u)) - a / ?u) * ?u"
    unfolding double_pos_eq [OF assms] using u by (simp add: field_simps)
  then have "\<bar>double a - a\<bar> = \<bar>of_int (roundHalfEven (a / ?u)) - a / ?u\<bar> * ?u"
    using u by (simp add: abs_mult)
  also have "\<dots> \<le> 1 / 2 * ?u"
    using roundHalfEven_error [of "a / ?u"] u by (intro mult_right_mono) simp_all
  also have "\<dots> = 2 powi (binade a) / 2 ^ 53"
    by (simp add: power_int_diff)
  also have "\<dots> \<le> a / 2 ^ 53"
    using binade_bounds(1) [OF assms] by (simp add: divide_right_mono)
  finally show ?thesis .
qed


lemma double_of_int:
  assumes "\<bar>n\<bar> < 2 ^ 53"
  shows "double (of_int n) = of_int n"
proof -
  have pos: "double (of_int m) = of_int m" if m: "0 < m" "m < 2 ^ 53" for m :: int
  proof -
    let ?a = "of_int m :: rat"
    have a: "0 < ?a" using m by simp
    have "(2::rat) powi (binade ?a) \<le> ?a" using binade_bounds(1) [OF a] .
    also have "?a < of_int (2 ^ 53)" using m(2) by (simp only: of_int_less_iff)
    also have "(of_int (2 ^ 53) :: rat) = 2 powi 53" by simp
    finally have "binade ?a < 53" by (rule powi_less_imp_less)
    then have "binade ?a - 52 = - int (nat (52 - binade ?a))" by simp
    then obtain k :: nat where k: "binade ?a - 52 = - int k" ..
    have "?a / 2 powi (binade ?a - 52) = of_int (m * 2 ^ k)"
      unfolding k by (simp add: power_int_minus field_simps)
    then have "roundHalfEven (?a / 2 powi (binade ?a - 52)) = m * 2 ^ k"
      by (simp only: roundHalfEven_of_int)
    then show ?thesis
      unfolding double_pos_eq [OF a] unfolding k by (simp add: power_int_minus field_simps)
  qed
  consider "n = 0" | "0 < n" | "n < 0" by linarith
  then show ?thesis
  proof cases
    case 1
    then show ?thesis by simp
  next
    case 2
    with assms show ?thesis by (intro pos) simp_all
  next
    case 3
    with assms have "double (of_int (- n)) = of_int (- n)" by (intro pos) simp_all
    then show ?thesis by (simp add: double_minus)
  qed
qed

lemma double_code [code]:
  "double a =
     (if a = of_int \<lfloor>a\<rfloor> \<and> \<bar>a\<bar> < 9007199254740992 then a
      else if a = 0 then 0
      else sgn a * of_int (roundHalfEven (\<bar>a\<bar> / 2 powi (binade \<bar>a\<bar> - 52))) *
           2 powi (binade \<bar>a\<bar> - 52))"
proof (cases "a = of_int \<lfloor>a\<rfloor> \<and> \<bar>a\<bar> < 9007199254740992")
  case True
  then have "(of_int \<bar>\<lfloor>a\<rfloor>\<bar> :: rat) < of_int (2 ^ 53)" by simp
  then have "\<bar>\<lfloor>a\<rfloor>\<bar> < 2 ^ 53" by (simp only: of_int_less_iff)
  from double_of_int [OF this] True show ?thesis by simp
next
  case False
  then show ?thesis unfolding double_def by (simp only: if_False)
qed

section \<open>The owner of an element\<close>

lemma percentage_elements_update [simp]:
  "getPercentageOfElementInCell element (cell\<lparr>elements := es\<rparr>) =
     getPercentageOfElementInCell element cell"
  by (simp add: getPercentageOfElementInCell_def intersect_def getArea_def)

lemma length_pushToOwner [simp]: "length (pushToOwner element cells) = length cells"
  by (induction cells) auto

lemma percentage_pushToOwner [simp]:
  "j < length cells \<Longrightarrow>
   getPercentageOfElementInCell e (pushToOwner element cells ! j) =
     getPercentageOfElementInCell e (cells ! j)"
  by (induction cells arbitrary: j) (auto simp: nth_Cons split: nat.splits)

lemma elements_pushToOwner:
  "i < length cells \<Longrightarrow>
   elements (pushToOwner element cells ! i) =
     elements (cells ! i) @
       (if getPercentageOfElementInCell element (cells ! i) > 50 \<and>
           (\<forall>j<i. \<not> getPercentageOfElementInCell element (cells ! j) > 50)
        then [element] else [])"
proof (induction cells arbitrary: i)
  case Nil
  then show ?case by simp
next
  case (Cons cell cells)
  show ?case
  proof (cases i)
    case 0
    then show ?thesis by simp
  next
    case (Suc k)
    with Cons.prems have k: "k < length cells" by simp
    show ?thesis
    proof (cases "getPercentageOfElementInCell element cell > 50")
      case True
      then show ?thesis using Suc by auto
    next
      case False
      have "(\<forall>j<Suc k. \<not> getPercentageOfElementInCell element ((cell # cells) ! j) > 50)
            = (\<forall>j<k. \<not> getPercentageOfElementInCell element (cells ! j) > 50)"
        using False by (auto simp: nth_Cons less_Suc_eq_0_disj split: nat.splits)
      then show ?thesis using False Suc Cons.IH [OF k] by simp
    qed
  qed
qed

lemma length_allocateElements [simp]: "length (allocateElements es cells) = length cells"
  unfolding allocateElements_def by (induction es arbitrary: cells) auto

lemma elements_allocateElements:
  "i < length cells \<Longrightarrow>
   elements (allocateElements es cells ! i) =
     elements (cells ! i) @
       filter (\<lambda>element. getPercentageOfElementInCell element (cells ! i) > 50 \<and>
           (\<forall>j<i. \<not> getPercentageOfElementInCell element (cells ! j) > 50)) es"
proof (induction es arbitrary: cells)
  case Nil
  then show ?case by (simp add: allocateElements_def)
next
  case (Cons element es)
  have step: "allocateElements (element # es) cells = allocateElements es (pushToOwner element cells)"
    by (simp add: allocateElements_def)
  have i: "i < length (pushToOwner element cells)" using Cons.prems by simp
  show ?case
    unfolding step Cons.IH [OF i]
    using Cons.prems by (simp add: elements_pushToOwner)
qed

lemma ownerCell_zero_area: "getArea element = 0 \<Longrightarrow> ownerCell element cells = None"
  by (auto simp: ownerCell_def find_None_iff getPercentageOfElementInCell_def)

lemma ownerCell_above_fifty:
  "ownerCell element cells = Some cell \<Longrightarrow> getPercentageOfElementInCell element cell > 50"
  by (auto simp: ownerCell_def find_Some_iff)

section \<open>Addresses without a comma\<close>

lemma set_trim: "set (trim s) \<subseteq> set s"
  unfolding trim_def by (metis set_dropWhileD set_rev subsetI)

lemma set_replaceAll: "set (replaceAll pat rep s) \<subseteq> set rep \<union> set s"
proof (induction pat rep s rule: replaceAll.induct)
  case (1 pat rep)
  then show ?case by simp
next
  case (2 pat rep c s)
  show ?case
  proof (cases "pat \<noteq> [] \<and> prefix pat (c # s)")
    case True
    have "set (drop (length pat) (c # s)) \<subseteq> set (c # s)" by (rule set_drop_subset)
    with True 2 show ?thesis by auto
  next
    case False
    with 2 show ?thesis by auto
  qed
qed

lemma lastIndexOf_absent: "c \<notin> set s \<Longrightarrow> lastIndexOf c s = -1"
  by (induction s) (auto simp: Let_def)

lemma no_comma_expandTerraces:
  assumes "CHR '','' \<notin> set s"
  shows "CHR '','' \<notin> set (expandTerraces s)"
proof -
  have step: "CHR '','' \<notin> set rep \<Longrightarrow> CHR '','' \<notin> set t \<Longrightarrow>
      CHR '','' \<notin> set (replaceAll pat rep t)" for pat rep t
    using set_replaceAll [of pat rep t] by auto
  show ?thesis unfolding expandTerraces_def
    by (intro step assms) simp_all
qed

lemma replaceAll_absent: "\<not> sublist pat s \<Longrightarrow> replaceAll pat rep s = s"
proof (induction pat rep s rule: replaceAll.induct)
  case (1 pat rep)
  then show ?case by simp
next
  case (2 pat rep c s)
  have "\<not> prefix pat (c # s)" using 2(3) by (meson prefix_imp_sublist)
  moreover have "\<not> sublist pat s" using 2(3) by (meson sublist_Cons_right)
  ultimately show ?case using 2 by simp
qed

text \<open>
  C5, as the claim states it, fails: the terrace abbreviations are expanded before the
  comma is looked for, so an input without a comma that holds one of them does not come
  back unchanged.
\<close>

theorem formatAddress_no_comma_counterexample:
  "CHR '','' \<notin> set ''1 A TCE NTH'' \<and>
   trim ''1 A TCE NTH'' = ''1 A TCE NTH'' \<and>
   formatAddress exampleEnvironment ''1 A TCE NTH'' = ''1 A TERRACE NORTH''"
  by (simp add: formatAddress_def expandTerraces_def trim_def isSpace_def)

text \<open>
  C5, amended. For an input without a comma \<open>formatAddress\<close> returns the trimmed input
  with the four terrace abbreviations expanded; that is the trimmed input itself when none
  of the four abbreviations occurs in it.
\<close>

theorem formatAddress_no_comma:
  assumes "CHR '','' \<notin> set address0"
  shows "formatAddress env address0 = expandTerraces (trim address0) \<and>
         (\<not> sublist '' TCE NTH'' (trim address0) \<and> \<not> sublist '' TCE STH'' (trim address0) \<and>
          \<not> sublist '' TCE EAST'' (trim address0) \<and> \<not> sublist '' TCE WEST'' (trim address0)
            \<longrightarrow> formatAddress env address0 = trim address0)"
proof -
  from assms have "CHR '','' \<notin> set (trim address0)" using set_trim by blast
  then have "CHR '','' \<notin> set (expandTerraces (trim address0))"
    by (rule no_comma_expandTerraces)
  then have "lastIndexOf CHR '','' (expandTerraces (trim address0)) = -1"
    by (rule lastIndexOf_absent)
  then have result: "formatAddress env address0 = expandTerraces (trim address0)"
    by (simp add: formatAddress_def Let_def)
  then show ?thesis
    by (simp add: expandTerraces_def replaceAll_absent)
qed

theorem formatAddress_no_comma_witness:
  "CHR '','' \<notin> set ''  12 MAIN ST '' \<and>
   \<not> sublist '' TCE NTH'' ''12 MAIN ST'' \<and> \<not> sublist '' TCE STH'' ''12 MAIN ST'' \<and>
   \<not> sublist '' TCE EAST'' ''12 MAIN ST'' \<and> \<not> sublist '' TCE WEST'' ''12 MAIN ST'' \<and>
   formatAddress exampleEnvironment ''  12 MAIN ST '' = ''12 MAIN ST''"
proof -
  have trimmed: "trim ''  12 MAIN ST '' = ''12 MAIN ST''"
    by (simp add: trim_def isSpace_def)
  have absent: "\<not> sublist '' TCE NTH'' ''12 MAIN ST''" "\<not> sublist '' TCE STH'' ''12 MAIN ST''"
    "\<not> sublist '' TCE EAST'' ''12 MAIN ST''" "\<not> sublist '' TCE WEST'' ''12 MAIN ST''"
    by (simp_all add: sublist_Cons_right)
  have comma: "CHR '','' \<notin> set ''  12 MAIN ST ''" by simp
  from formatAddress_no_comma [OF comma, of exampleEnvironment] absent
  have "formatAddress exampleEnvironment ''  12 MAIN ST '' = ''12 MAIN ST''"
    unfolding trimmed by blast
  with absent comma show ?thesis by blast
qed

section \<open>The applications that are returned\<close>

lemma filterApplications_fst:
  "fst (filterApplications previous as) = filter validApplication as"
  by (induction as arbitrary: previous) (simp_all add: validApplication_def split_beta)

lemma previousValid_Cons:
  "previousValid previous (a # as) =
     previousValid (if validApplication a then Some (applicationNumber a) else previous) as"
  by (auto simp: previousValid_def split: list.splits)

lemma filterApplications_append:
  "filterApplications previous (as @ bs) =
     (fst (filterApplications previous as) @ fst (filterApplications (previousValid previous as) bs),
      snd (filterApplications previous as) @ snd (filterApplications (previousValid previous as) bs))"
proof (induction as arbitrary: previous)
  case Nil
  then show ?case by (simp add: previousValid_def)
next
  case (Cons a as)
  show ?case
    by (simp add: Cons.IH previousValid_Cons validApplication_def split_beta)
qed


lemma filterApplications_kept:
  assumes "validApplication a"
  shows "snd (filterApplications previous (as @ a # bs)) =
      snd (filterApplications previous as) @
      snd (filterApplications (Some (applicationNumber a)) bs)"
  using assms
  by (auto simp: filterApplications_append ignoringMessage_def validApplication_def split_beta)




section \<open>Merging the rows of an application\<close>

lemma map_of_update:
  "map_of (map (\<lambda>(key, a). if key = number then (key, f a) else (key, a)) apps) k =
     (if k = number then map_option f (map_of apps k) else map_of apps k)"
  by (induction apps) auto

lemma map_of_mergeApplication:
  "map_of (mergeApplication env url headings details apps) k =
     (if k = rowApplicationNumber details
      then Some (updateApplication headings details
             (case map_of apps k of None \<Rightarrow> newApplication env url k | Some a \<Rightarrow> a))
      else map_of apps k)"
  by (auto simp: mergeApplication_def Let_def map_of_update map_add_def
      split: option.splits)

lemma mergeApplication_invariant:
  assumes "\<forall>a \<in> snd ` set apps. P a"
    and "\<And>a. P a \<Longrightarrow> P (updateApplication headings details a)"
    and "P (newApplication env url (rowApplicationNumber details))"
  shows "\<forall>a \<in> snd ` set (mergeApplication env url headings details apps). P a"
  using assms by (auto simp: mergeApplication_def Let_def split: option.splits if_splits)

lemma columnRows_invariant:
  assumes "\<forall>a \<in> snd ` set (snd state). P a"
    and "\<And>headings details a. P a \<Longrightarrow> P (updateApplication headings details a)"
    and "\<And>number. P (newApplication env url number)"
  shows "\<forall>a \<in> snd ` set (snd (columnRows env url es previous anchors state)). P a"
  using assms(1)
proof (induction anchors arbitrary: previous state)
  case Nil
  then show ?case by simp
next
  case (Cons anchor anchors)
  show ?case
    apply (simp only: columnRows.simps Let_def split: if_splits)
    apply (intro conjI impI Cons.IH)
     apply (simp add: Cons.prems)
    apply (simp only: snd_conv)
    apply (rule mergeApplication_invariant [OF Cons.prems assms(2) assms(3)])
    apply assumption
    done
qed

lemma columnPages_invariant:
  assumes "\<And>headings details a. P a \<Longrightarrow> P (updateApplication headings details a)"
    and "\<And>number. P (newApplication env url number)"
  shows "\<forall>a \<in> snd ` set (snd (columnPages env url pages)). P a"
proof -
  have "\<forall>a \<in> snd ` set (snd (foldl (\<lambda>state page. columnPage env url page state) state pages)). P a"
    if "\<forall>a \<in> snd ` set (snd state). P a" for state
    using that
  proof (induction pages arbitrary: state)
    case Nil
    then show ?case by simp
  next
    case (Cons page pages)
    show ?case
      by (simp only: foldl_Cons) (intro Cons.IH, simp only: columnPage_def Let_def,
          rule columnRows_invariant [OF Cons.prems assms])
  qed
  from this [of "(noHeadings, [])"] show ?thesis by (simp add: columnPages_def)
qed

lemma updateApplication_description:
  "description a \<noteq> [] \<Longrightarrow> description (updateApplication headings details a) \<noteq> []"
  by (simp add: updateApplication_def Let_def)

lemma column_description: "\<forall>a \<in> set (fst (parsePdfColumn env url pages)). description a \<noteq> []"
proof -
  have "\<forall>a \<in> snd ` set (snd (columnPages env url pages)). description a \<noteq> []"
    by (rule columnPages_invariant) (simp_all add: updateApplication_description newApplication_def)
  moreover have "fst (parsePdfColumn env url pages) =
     filter validApplication (map snd (snd (columnPages env url pages)))"
    by (simp add: parsePdfColumn_def filterApplications_fst Let_def split_beta)
  ultimately show ?thesis by auto
qed

section \<open>Suburb and hundred\<close>

text \<open>
  C6. When the part that starts with the hundred prefix comes second and the prefix is
  not in upper case, the program takes the first part for the hundred and the second part
  for the suburb, and then strips the prefix from the suburb: the test of the second part
  is case sensitive, the removal of the prefix is not. With the prefix in upper case, or
  with the hundred first, the parts go where the claim says.
\<close>

theorem splitSuburb_lower_case_hundred:
  "splitSuburb ''EMU FLAT/HD CLARE'' = (''EMU FLAT'', ''CLARE'') \<and>
   splitSuburb ''HD CLARE/EMU FLAT'' = (''EMU FLAT'', ''CLARE'') \<and>
   splitSuburb ''hd CLARE/EMU FLAT'' = (''EMU FLAT'', ''CLARE'') \<and>
   startsWithHDIgnoringCase ''hd CLARE'' \<and>
   splitSuburb ''EMU FLAT/hd CLARE'' = (''CLARE'', ''EMU FLAT'')"
  by code_simp

section \<open>Descriptions\<close>

lemma gridRow_description:
  "gridRow env url headings row = (Some a, messages) \<Longrightarrow>
   description a =
     (if (case findRowCell (descriptionHeadingCell headings) row of
            None \<Rightarrow> [] | Some cell \<Rightarrow> joinedText (elements cell)) = []
      then ''No Description Provided''
      else (case findRowCell (descriptionHeadingCell headings) row of
            None \<Rightarrow> [] | Some cell \<Rightarrow> joinedText (elements cell)))"
  unfolding gridRow_def Let_def
  by (auto split: option.splits if_splits)


lemma gridRows_invariant:
  assumes "\<And>row a messages. gridRow env url headings row = (Some a, messages) \<Longrightarrow> P a"
  shows "\<forall>a \<in> set (fst (gridRows env url headings rows)). P a"
proof (induction rows)
  case Nil
  then show ?case by simp
next
  case (Cons row rows)
  obtain application messages where row: "gridRow env url headings row = (application, messages)"
    by (cases "gridRow env url headings row")
  show ?case
    using Cons.IH assms [of row _ messages] row
    by (cases application) (simp_all add: split_beta)
qed

lemma gridPage_invariant:
  assumes "\<And>headings row a messages. gridRow env url headings row = (Some a, messages) \<Longrightarrow> P a"
  shows "\<forall>a \<in> set (fst (gridPage env url page)). P a"
  unfolding gridPage_def Let_def
  using gridRows_invariant [of env url _ P, OF assms] by simp

lemma gridPages_invariant:
  assumes "\<And>headings row a messages. gridRow env url headings row = (Some a, messages) \<Longrightarrow> P a"
  shows "\<forall>a \<in> set (fst (gridPages env url numPages pageIndex pages)). P a"
proof (induction pages arbitrary: pageIndex)
  case Nil
  then show ?case by simp
next
  case (Cons page pages)
  show ?case
    using Cons.IH [of "pageIndex + 1"] gridPage_invariant [of env url P page, OF assms]
    by (auto simp: split_beta)
qed

lemma grid_description:
  "\<forall>a \<in> set (fst (parsePdfGrid env url pages)). description a \<noteq> []"
proof -
  have "description a \<noteq> []" if "gridRow env url headings row = (Some a, messages)"
    for headings row a messages
    using gridRow_description [OF that] by (simp split: if_splits)
  from gridPages_invariant [of env url "\<lambda>a. description a \<noteq> []", OF this]
  show ?thesis by (simp add: parsePdfGrid_def split_beta)
qed

lemma rowDetails_description:
  "rowDescription (rowDetails env headings anchor row) =
     (if columnText (descriptionHeadingElement headings) row = [] then ''No Description Provided''
      else columnText (descriptionHeadingElement headings) row)"
  by (simp add: rowDetails_def Let_def split_beta)

text \<open>
  C10. No application that either strategy returns has an empty description. In grid mode
  the description is the fixed text when the cell under the description heading holds no
  text or no such cell exists. In column mode an application starts with the fixed text and
  keeps it through every row that brings no description text.
\<close>

theorem description_never_empty:
  "(\<forall>a \<in> set (fst (parsePdfGrid env url gridDocument)). description a \<noteq> []) \<and>
   (\<forall>a \<in> set (fst (parsePdfColumn env url columnDocument)). description a \<noteq> []) \<and>
   (\<forall>headings row a messages.
      gridRow env url headings row = (Some a, messages) \<and>
      (case findRowCell (descriptionHeadingCell headings) row of
         None \<Rightarrow> [] | Some cell \<Rightarrow> joinedText (elements cell)) = []
      \<longrightarrow> description a = ''No Description Provided'') \<and>
   (\<forall>number. description (newApplication env url number) = ''No Description Provided'') \<and>
   (\<forall>headings anchor row a.
      description a = ''No Description Provided'' \<and>
      columnText (descriptionHeadingElement headings) row = []
      \<longrightarrow> description (updateApplication headings (rowDetails env headings anchor row) a) =
            ''No Description Provided'')"
proof -
  have grid: "description a = ''No Description Provided''"
    if "gridRow env url headings row = (Some a, messages) \<and>
      (case findRowCell (descriptionHeadingCell headings) row of
         None \<Rightarrow> [] | Some cell \<Rightarrow> joinedText (elements cell)) = []"
    for headings row a messages
    using that gridRow_description [of env url headings row a messages] by simp
  have column: "description (updateApplication headings (rowDetails env headings anchor row) a) =
            ''No Description Provided''"
    if "description a = ''No Description Provided'' \<and>
      columnText (descriptionHeadingElement headings) row = []"
    for headings anchor row a
    using that by (simp add: updateApplication_def Let_def rowDetails_description)
  have new: "\<forall>number. description (newApplication env url number) = ''No Description Provided''"
    by (simp add: newApplication_def)
  from grid_description [of env url gridDocument] column_description [of env url columnDocument]
    grid column new
  show ?thesis by blast
qed

text \<open>An application of the grid page without a proposal, and one of the column page
  with a description.\<close>

theorem description_never_empty_witness:
  "map description (fst (parsePdfGrid exampleEnvironment exampleUrl [gridPageExample])) =
     [''No Description Provided''] \<and>
   map description (fst (parsePdfColumn exampleEnvironment exampleUrl [headingRow @ firstRow])) =
     [''Shed''] \<and>
   description (hd (fst (parsePdfGrid exampleEnvironment exampleUrl [gridPageExample]))) \<noteq> [] \<and>
   description (hd (fst (parsePdfColumn exampleEnvironment exampleUrl [headingRow @ firstRow]))) \<noteq> []"
proof -
  have grid: "map description (fst (parsePdfGrid exampleEnvironment exampleUrl [gridPageExample])) =
     [''No Description Provided'']"
    by code_simp
  have column: "map description
      (fst (parsePdfColumn exampleEnvironment exampleUrl [headingRow @ firstRow])) = [''Shed'']"
    by code_simp
  from grid have "hd (fst (parsePdfGrid exampleEnvironment exampleUrl [gridPageExample])) \<in>
      set (fst (parsePdfGrid exampleEnvironment exampleUrl [gridPageExample]))"
    by (intro hd_in_set) auto
  moreover from column
  have "hd (fst (parsePdfColumn exampleEnvironment exampleUrl [headingRow @ firstRow])) \<in>
      set (fst (parsePdfColumn exampleEnvironment exampleUrl [headingRow @ firstRow]))"
    by (intro hd_in_set) auto
  ultimately show ?thesis
    using description_never_empty [of exampleEnvironment exampleUrl "[gridPageExample]"
        "[headingRow @ firstRow]"] grid column
    by blast
qed

section \<open>Application numbers in grid mode\<close>

lemma not_digit_slash: "\<not> isDigit CHR ''/''"
  by (simp add: isDigit_def)

lemma matchesHere_digits:
  assumes "digits1 \<noteq> []" "digits2 \<noteq> []" "digits3 \<noteq> []"
    and "\<forall>c \<in> set (digits1 @ digits2 @ digits3). isDigit c"
  shows "matchesHere (digits1 @ ''/'' @ digits2 @ ''/'' @ digits3 @ after)"
proof -
  from assms have d1: "\<forall>c \<in> set digits1. isDigit c" and d2: "\<forall>c \<in> set digits2. isDigit c"
    by auto
  obtain e rest where d3: "digits3 = e # rest" using assms(3) by (cases digits3) auto
  with assms(4) have e: "isDigit e" by simp
  have t1: "takeWhile isDigit (digits1 @ ''/'' @ digits2 @ ''/'' @ digits3 @ after) = digits1"
    using d1 by (simp add: takeWhile_append2 not_digit_slash)
  have r1: "dropWhile isDigit (digits1 @ ''/'' @ digits2 @ ''/'' @ digits3 @ after) =
      ''/'' @ digits2 @ ''/'' @ digits3 @ after"
    using d1 by (simp add: dropWhile_append2 not_digit_slash)
  show ?thesis
    unfolding matchesHere_def t1 r1 using assms(1,2) e d2
    by (simp add: takeWhile_append2 dropWhile_append2 not_digit_slash d3)
qed

lemma matchesHere_contains:
  assumes "matchesHere s"
  shows "\<exists>digits1 digits2 digits3 after.
        s = digits1 @ ''/'' @ digits2 @ ''/'' @ digits3 @ after \<and>
        digits1 \<noteq> [] \<and> digits2 \<noteq> [] \<and> digits3 \<noteq> [] \<and>
        (\<forall>c \<in> set (digits1 @ digits2 @ digits3). isDigit c)"
proof -
  from assms obtain s1 where s1: "dropWhile isDigit s = CHR ''/'' # s1"
    and t1: "takeWhile isDigit s \<noteq> []"
    and rest1: "takeWhile isDigit s1 \<noteq> [] \<and>
           (case dropWhile isDigit s1 of
              d # s2 \<Rightarrow> d = CHR ''/'' \<and> (case s2 of e # _ \<Rightarrow> isDigit e | [] \<Rightarrow> False)
            | [] \<Rightarrow> False)"
    by (auto simp: matchesHere_def split: list.splits)
  from rest1 obtain e s3 where s2: "dropWhile isDigit s1 = CHR ''/'' # e # s3" and e: "isDigit e"
    and t2: "takeWhile isDigit s1 \<noteq> []"
    by (auto split: list.splits)
  have "s = takeWhile isDigit s @ dropWhile isDigit s" by simp
  also have "\<dots> = takeWhile isDigit s @ ''/'' @ s1" by (simp add: s1)
  also have "s1 = takeWhile isDigit s1 @ dropWhile isDigit s1" by simp
  also have "\<dots> = takeWhile isDigit s1 @ ''/'' @ [e] @ s3" by (simp add: s2)
  finally have "s = takeWhile isDigit s @ ''/'' @ takeWhile isDigit s1 @ ''/'' @ [e] @ s3" .
  moreover have "\<forall>c \<in> set (takeWhile isDigit s @ takeWhile isDigit s1 @ [e]). isDigit c"
    using e by (auto dest: set_takeWhileD)
  ultimately show ?thesis using t1 t2 by blast
qed

lemma testApplicationNumber_append: "testApplicationNumber s \<Longrightarrow> testApplicationNumber (before @ s)"
  by (induction before) auto

lemma testApplicationNumber_matchesHere: "matchesHere s \<Longrightarrow> testApplicationNumber s"
  by (cases s) (auto simp: matchesHere_def)

lemma testApplicationNumber_suffix:
  "testApplicationNumber s \<Longrightarrow> \<exists>before rest. s = before @ rest \<and> matchesHere rest"
proof (induction s)
  case Nil
  then show ?case by simp
next
  case (Cons c s)
  show ?case
  proof (cases "matchesHere (c # s)")
    case True
    then have "c # s = [] @ (c # s) \<and> matchesHere (c # s)" by simp
    then show ?thesis by blast
  next
    case False
    with Cons.prems have "testApplicationNumber s" by simp
    from Cons.IH [OF this] obtain before rest where "s = before @ rest" "matchesHere rest" by blast
    then have "c # s = (c # before) @ rest \<and> matchesHere rest" by simp
    then show ?thesis by blast
  qed
qed

lemma testApplicationNumber_contains:
  "testApplicationNumber s = containsApplicationNumber s"
proof
  assume "testApplicationNumber s"
  then obtain before rest where s: "s = before @ rest" and "matchesHere rest"
    using testApplicationNumber_suffix by blast
  from matchesHere_contains [OF this(2)] s show "containsApplicationNumber s"
    unfolding containsApplicationNumber_def by blast
next
  assume "containsApplicationNumber s"
  then obtain before digits1 digits2 digits3 after where
    s: "s = before @ digits1 @ ''/'' @ digits2 @ ''/'' @ digits3 @ after" and
    d: "digits1 \<noteq> []" "digits2 \<noteq> []" "digits3 \<noteq> []"
      "\<forall>c \<in> set (digits1 @ digits2 @ digits3). isDigit c"
    unfolding containsApplicationNumber_def by blast
  have "matchesHere (digits1 @ ''/'' @ digits2 @ ''/'' @ digits3 @ after)"
    using d by (rule matchesHere_digits)
  then show "testApplicationNumber s"
    unfolding s by (intro testApplicationNumber_append testApplicationNumber_matchesHere)
qed


text \<open>
  C9. A row of the grid gives no application, and logs nothing, unless it has a cell under
  the heading of the application numbers and the text of that cell matches the pattern of
  digits, slash, digits, slash, digits; the loop then goes on with the rows that are left.
  The pattern has no anchors: it matches when the text holds such a number anywhere. Every
  application that a row gives has a number that matches.
\<close>

theorem gridRow_rejects:
  "(findRowCell (applicationNumberHeadingCell headings) row = None \<longrightarrow>
      gridRow env url headings row = (None, []) \<and>
      gridRows env url headings (row # rows) = gridRows env url headings rows) \<and>
   (\<forall>numberCell.
      findRowCell (applicationNumberHeadingCell headings) row = Some numberCell \<and>
      \<not> containsApplicationNumber (trim (concat (map text (elements numberCell)))) \<longrightarrow>
      gridRow env url headings row = (None, []) \<and>
      gridRows env url headings (row # rows) = gridRows env url headings rows) \<and>
   (\<forall>a messages. gridRow env url headings row = (Some a, messages) \<longrightarrow>
      containsApplicationNumber (applicationNumber a) \<and>
      (\<exists>numberCell. findRowCell (applicationNumberHeadingCell headings) row = Some numberCell \<and>
         applicationNumber a = trim (concat (map text (elements numberCell))))) \<and>
   (\<forall>s. testApplicationNumber s = containsApplicationNumber s)"
proof -
  have none: "gridRow env url headings row = (None, []) \<and>
      gridRows env url headings (row # rows) = gridRows env url headings rows"
    if "findRowCell (applicationNumberHeadingCell headings) row = None"
    using that by (simp add: gridRow_def Let_def)
  have rejected: "gridRow env url headings row = (None, []) \<and>
      gridRows env url headings (row # rows) = gridRows env url headings rows"
    if "findRowCell (applicationNumberHeadingCell headings) row = Some numberCell \<and>
      \<not> containsApplicationNumber (trim (concat (map text (elements numberCell))))"
    for numberCell
    using that by (simp add: gridRow_def Let_def testApplicationNumber_contains)
  have accepted: "containsApplicationNumber (applicationNumber a) \<and>
      (\<exists>numberCell. findRowCell (applicationNumberHeadingCell headings) row = Some numberCell \<and>
         applicationNumber a = trim (concat (map text (elements numberCell))))"
    if "gridRow env url headings row = (Some a, messages)" for a messages
    using that unfolding gridRow_def Let_def
    by (auto simp: testApplicationNumber_contains split: option.splits if_splits)
  from none rejected accepted testApplicationNumber_contains show ?thesis by blast
qed

text \<open>The heading row of the page: the text of its first cell does not match.\<close>

theorem gridRow_rejects_witness:
  "findRowCell (applicationNumberHeadingCell gridHeadings) gridHeadingRow = Some numberHeadingCell \<and>
   trim (concat (map text (elements numberHeadingCell))) = ''D/A Number'' \<and>
   \<not> containsApplicationNumber ''D/A Number'' \<and>
   gridRow exampleEnvironment exampleUrl gridHeadings gridHeadingRow = (None, [])"
proof -
  have found: "findRowCell (applicationNumberHeadingCell gridHeadings) gridHeadingRow =
      Some numberHeadingCell"
    by code_simp
  have number: "trim (concat (map text (elements numberHeadingCell))) = ''D/A Number''"
    by code_simp
  have "\<not> testApplicationNumber ''D/A Number''"
    by code_simp
  with gridRow_rejects [of gridHeadings gridHeadingRow exampleEnvironment exampleUrl "[]"]
  have no_match: "\<not> containsApplicationNumber ''D/A Number''"
    by blast
  with found number gridRow_rejects [of gridHeadings gridHeadingRow exampleEnvironment exampleUrl "[]"]
  have "gridRow exampleEnvironment exampleUrl gridHeadings gridHeadingRow = (None, [])"
    by metis
  with found number no_match show ?thesis by blast
qed

section \<open>Pages that are skipped\<close>

lemma length_insertBy [simp]: "length (insertBy comparer a bs) = Suc (length bs)"
  by (induction bs) auto

lemma length_jsSort [simp]: "length (jsSort comparer as) = length as"
proof -
  have "length (foldl (\<lambda>done element. insertBy comparer element done) acc as) =
      length acc + length as" for acc
    by (induction as arbitrary: acc) auto
  then show ?thesis by (simp add: jsSort_def)
qed

lemma addToRows_not_empty [simp]: "addToRows cell rows \<noteq> []"
  by (cases rows) (auto split: list.splits)

lemma groupRows_empty: "(groupRows cells = []) = (cells = [])"
proof -
  have "foldl (\<lambda>rows cell. addToRows cell rows) acc cells \<noteq> []" if "acc \<noteq> [] \<or> cells \<noteq> []" for acc
    using that by (induction cells arbitrary: acc) auto
  from this [of "[]"] show ?thesis by (auto simp: groupRows_def)
qed

lemma pageCells_empty: "(pageCells cells es = []) = (cells = [])"
proof -
  have "length (pageCells cells es) = length cells"
    by (simp add: pageCells_def)
  then show ?thesis by (metis length_0_conv)
qed

text \<open>
  C3. A page of the grid on which no rows are found, or on which the heading of the
  application numbers, of the street names or of the towns is in no cell, gives no
  application. One message is logged for it, with the texts of all elements of the page,
  and the loop goes on with the pages that are left. No rows are found exactly when the page
  has no cells.
\<close>

theorem gridPage_skipped:
  assumes "groupRows (pageCells (fst page) (snd page)) = [] \<or>
      findHeadingCell ''d/anumber'' (pageCells (fst page) (snd page)) = None \<or>
      findHeadingCell ''streetname'' (pageCells (fst page) (snd page)) = None \<or>
      findHeadingCell ''town'' (pageCells (fst page) (snd page)) = None"
  shows "fst (gridPage env url page) = [] \<and>
     (snd (gridPage env url page) = [NoRowsFound (elementSummary (pageElements (snd page)))] \<or>
      (\<exists>heading. snd (gridPage env url page) =
         [HeadingNotFound heading (elementSummary (pageElements (snd page)))])) \<and>
     fst (gridPages env url numPages pageIndex (page # pages)) =
       fst (gridPages env url numPages (pageIndex + 1) pages) \<and>
     snd (gridPages env url numPages pageIndex (page # pages)) =
       ReadingPage (pageIndex + 1) numPages # snd (gridPage env url page) @
       snd (gridPages env url numPages (pageIndex + 1) pages) \<and>
     (groupRows (pageCells (fst page) (snd page)) = []) = (fst page = [])"
proof -
  have skipped: "fst (gridPage env url page) = [] \<and>
     (snd (gridPage env url page) = [NoRowsFound (elementSummary (pageElements (snd page)))] \<or>
      (\<exists>heading. snd (gridPage env url page) =
         [HeadingNotFound heading (elementSummary (pageElements (snd page)))]))"
    using assms by (auto simp: gridPage_def Let_def findGridHeadings_def)
  then have "fst (gridPages env url numPages pageIndex (page # pages)) =
       fst (gridPages env url numPages (pageIndex + 1) pages)"
    by (simp add: split_beta)
  moreover have "snd (gridPages env url numPages pageIndex (page # pages)) =
       ReadingPage (pageIndex + 1) numPages # snd (gridPage env url page) @
       snd (gridPages env url numPages (pageIndex + 1) pages)"
    by (simp add: split_beta)
  moreover have "(groupRows (pageCells (fst page) (snd page)) = []) = (fst page = [])"
    by (simp add: groupRows_empty pageCells_empty)
  ultimately show ?thesis using skipped by blast
qed


text \<open>A page without the heading of the application numbers, before a page with it, and
  a page without cells.\<close>

theorem gridPage_skipped_witness:
  "findHeadingCell ''d/anumber''
     (pageCells (fst gridPageWithoutNumber) (snd gridPageWithoutNumber)) = None \<and>
   gridPage exampleEnvironment exampleUrl gridPageWithoutNumber =
     ([], [HeadingNotFound ''D/A Number''
            ''[Street Name][Town][Proposal][910/144/16][12 Main St][Someton]'']) \<and>
   map applicationNumber
     (fst (gridPages exampleEnvironment exampleUrl 2 0 [gridPageWithoutNumber, gridPageExample])) =
     [''910/144/16''] \<and>
   gridPage exampleEnvironment exampleUrl ([], snd gridPageExample) =
     ([], [NoRowsFound
            ''[D/A Number][Street Name][Town][Proposal][910/144/16][12 Main St][Someton]''])"
proof -
  have missing: "findHeadingCell ''d/anumber''
     (pageCells (fst gridPageWithoutNumber) (snd gridPageWithoutNumber)) = None"
    by code_simp
  have logged: "snd (gridPage exampleEnvironment exampleUrl gridPageWithoutNumber) =
     [HeadingNotFound ''D/A Number''
        ''[Street Name][Town][Proposal][910/144/16][12 Main St][Someton]'']"
    by code_simp
  have next_page: "map applicationNumber
     (fst (gridPages exampleEnvironment exampleUrl 2 (0 + 1) [gridPageExample])) = [''910/144/16'']"
    by code_simp
  from missing have skip: "groupRows (pageCells (fst gridPageWithoutNumber) (snd gridPageWithoutNumber)) = [] \<or>
      findHeadingCell ''d/anumber'' (pageCells (fst gridPageWithoutNumber) (snd gridPageWithoutNumber)) = None \<or>
      findHeadingCell ''streetname'' (pageCells (fst gridPageWithoutNumber) (snd gridPageWithoutNumber)) = None \<or>
      findHeadingCell ''town'' (pageCells (fst gridPageWithoutNumber) (snd gridPageWithoutNumber)) = None"
    by blast
  from gridPage_skipped [OF skip, of exampleEnvironment exampleUrl 2 0 "[gridPageExample]"]
  have "fst (gridPage exampleEnvironment exampleUrl gridPageWithoutNumber) = []"
    and "fst (gridPages exampleEnvironment exampleUrl 2 0 [gridPageWithoutNumber, gridPageExample]) =
       fst (gridPages exampleEnvironment exampleUrl 2 (0 + 1) [gridPageExample])"
    by blast+
  with missing logged next_page have first: "findHeadingCell ''d/anumber''
       (pageCells (fst gridPageWithoutNumber) (snd gridPageWithoutNumber)) = None \<and>
     gridPage exampleEnvironment exampleUrl gridPageWithoutNumber =
       ([], [HeadingNotFound ''D/A Number''
              ''[Street Name][Town][Proposal][910/144/16][12 Main St][Someton]'']) \<and>
     map applicationNumber
       (fst (gridPages exampleEnvironment exampleUrl 2 0 [gridPageWithoutNumber, gridPageExample])) =
       [''910/144/16'']"
    by (simp add: prod_eq_iff)
  have no_rows: "groupRows (pageCells (fst ([], snd gridPageExample)) (snd ([], snd gridPageExample))) = [] \<or>
      findHeadingCell ''d/anumber'' (pageCells (fst ([], snd gridPageExample)) (snd ([], snd gridPageExample))) = None \<or>
      findHeadingCell ''streetname'' (pageCells (fst ([], snd gridPageExample)) (snd ([], snd gridPageExample))) = None \<or>
      findHeadingCell ''town'' (pageCells (fst ([], snd gridPageExample)) (snd ([], snd gridPageExample))) = None"
    by (simp add: groupRows_empty pageCells_empty)
  have dump: "snd (gridPage exampleEnvironment exampleUrl ([], snd gridPageExample)) =
     [NoRowsFound ''[D/A Number][Street Name][Town][Proposal][910/144/16][12 Main St][Someton]'']"
    by code_simp
  from gridPage_skipped [OF no_rows, of exampleEnvironment exampleUrl 1 0 "[]"] dump
  have "gridPage exampleEnvironment exampleUrl ([], snd gridPageExample) =
     ([], [NoRowsFound
            ''[D/A Number][Street Name][Town][Proposal][910/144/16][12 Main St][Someton]''])"
    by (simp add: prod_eq_iff)
  with first show ?thesis by blast
qed

end
